theory Spec2Isabelle
  imports Main
begin

section \<open>Python values\<close>

text \<open>
  A Python \<^verbatim>\<open>str\<close> is a sequence of Unicode code points; it is modelled as the list of
  its code points. \<open>str\<close> turns an ASCII literal into such a list, so that the literals of
  the source can be written as they stand; code points beyond ASCII are written as
  numerals (\<open>8212\<close> is the em dash U+2014, \<open>8594\<close> the arrow U+2192).
\<close>

type_synonym pystr = "nat list"

definition str :: "string \<Rightarrow> pystr" where
  "str s = map of_char s"

text \<open>
  The values the data modules hold: \<^verbatim>\<open>None\<close>, booleans, integers, strings, lists and
  dictionaries with string keys (the modules annotate them \<^verbatim>\<open>dict[str, Any]\<close>). A
  dictionary keeps its insertion order, which \<^verbatim>\<open>json.dumps\<close> follows, so it is an
  association list.
\<close>

datatype pyval =
    PNone
  | PBool bool
  | PInt int
  | PStr pystr
  | PList "pyval list"
  | PDict "(pystr \<times> pyval) list"

section \<open>The data modules\<close>

subsection \<open>The data of \<^verbatim>\<open>data/mothergoose.py\<close>\<close>

definition MOTHERGOOSE_API_ENDPOINTS :: pyval where
  \<open>MOTHERGOOSE_API_ENDPOINTS = PList [
    PDict [
      (str ''method'', PStr (str ''GET'')),
      (str ''path'', PStr (str ''/health'')),
      (str ''description'', PStr (str ''Service health check'')),
      (str ''auth'', PStr (str ''none'')),
      (str ''response'', PStr (str ''200 OK with status''))],
    PDict [
      (str ''method'', PStr (str ''GET'')),
      (str ''path'', PStr (str ''/eggs'')),
      (str ''description'', PStr (str ''List all EggConfigs'')),
      (str ''auth'', PStr (str ''bearer'')),
      (str ''response'', PStr (str ''list[EggConfig]''))],
    PDict [
      (str ''method'', PStr (str ''GET'')),
      (str ''path'', PStr (str ''/eggs/{egg_name}'')),
      (str ''description'', PStr (str ''Get a single EggConfig by name'')),
      (str ''auth'', PStr (str ''bearer'')),
      (str ''response'', PStr (str ''EggConfig''))],
    PDict [
      (str ''method'', PStr (str ''POST'')),
      (str ''path'', PStr (str ''/eggs/{egg_name}/deploy'')),
      (str ''description'', PStr (str ''Trigger runner deployment for an egg'')),
      (str ''auth'', PStr (str ''bearer'')),
      (str ''response'', PStr (str ''202 Accepted''))],
    PDict [
      (str ''method'', PStr (str ''GET'')),
      (str ''path'', PStr (str ''/runners'')),
      (str ''description'', PStr (str ''List all runners, optional ?state= filter'')),
      (str ''auth'', PStr (str ''bearer'')),
      (str ''response'', PStr (str ''list[Runner]''))],
    PDict [
      (str ''method'', PStr (str ''GET'')),
      (str ''path'', PStr (str ''/runners/{runner_id}'')),
      (str ''description'', PStr (str ''Get a single runner by ID'')),
      (str ''auth'', PStr (str ''bearer'')),
      (str ''response'', PStr (str ''Runner''))],
    PDict [
      (str ''method'', PStr (str ''DELETE'')),
      (str ''path'', PStr (str ''/runners/{runner_id}'')),
      (str ''description'', PStr (str ''Terminate a runner'')),
      (str ''auth'', PStr (str ''bearer'')),
      (str ''response'', PStr (str ''202 Accepted''))],
    PDict [
      (str ''method'', PStr (str ''POST'')),
      (str ''path'', PStr (str ''/webhooks/gitlab'')),
      (str ''description'', PStr (str ''Receive GitLab push/pipeline webhooks. Validates X-Gitlab-Token header, matches egg, enqueues Celery task.'')),
      (str ''auth'', PStr (str ''X-Gitlab-Token header (per-egg secret)'')),
      (str ''response'', PStr (str ''202 Accepted''))],
    PDict [
      (str ''method'', PStr (str ''POST'')),
      (str ''path'', PStr (str ''/internal/sync-git'')),
      (str ''description'', PStr (str ''Trigger a Nest Git sync. Called by YC Timer or AWS EventBridge every 5 minutes, or on Nest push webhook.'')),
      (str ''auth'', PStr (str ''internal secret token'')),
      (str ''response'', PStr (str ''202 Accepted''))],
    PDict [
      (str ''method'', PStr (str ''POST'')),
      (str ''path'', PStr (str ''/internal/health-check'')),
      (str ''description'', PStr (str ''Internal health check endpoint for cloud load balancers.'')),
      (str ''auth'', PStr (str ''none'')),
      (str ''response'', PStr (str ''200 OK''))],
    PDict [
      (str ''method'', PStr (str ''GET'')),
      (str ''path'', PStr (str ''/admin/binaries/tofu'')),
      (str ''description'', PStr (str ''List available OpenTofu binary versions'')),
      (str ''auth'', PStr (str ''bearer'')),
      (str ''response'', PStr (str ''list[TofuVersion]''))],
    PDict [
      (str ''method'', PStr (str ''POST'')),
      (str ''path'', PStr (str ''/admin/binaries/tofu'')),
      (str ''description'', PStr (str ''Download and register a new OpenTofu binary version'')),
      (str ''auth'', PStr (str ''bearer'')),
      (str ''response'', PStr (str ''TofuVersion''))],
    PDict [
      (str ''method'', PStr (str ''PUT'')),
      (str ''path'', PStr (str ''/admin/binaries/tofu/{version_id}/activate'')),
      (str ''description'', PStr (str ''Activate a specific OpenTofu binary version'')),
      (str ''auth'', PStr (str ''bearer'')),
      (str ''response'', PStr (str ''200 OK''))],
    PDict [
      (str ''method'', PStr (str ''GET'')),
      (str ''path'', PStr (str ''/admin/binaries/gosling'')),
      (str ''description'', PStr (str ''List available Gosling binary versions'')),
      (str ''auth'', PStr (str ''bearer'')),
      (str ''response'', PStr (str ''list[GoslingVersion]''))],
    PDict [
      (str ''method'', PStr (str ''POST'')),
      (str ''path'', PStr (str ''/admin/binaries/gosling'')),
      (str ''description'', PStr (str ''Download and register a new Gosling binary version'')),
      (str ''auth'', PStr (str ''bearer'')),
      (str ''response'', PStr (str ''GoslingVersion''))],
    PDict [
      (str ''method'', PStr (str ''PUT'')),
      (str ''path'', PStr (str ''/admin/binaries/gosling/{version_id}/activate'')),
      (str ''description'', PStr (str ''Activate a specific Gosling binary version'')),
      (str ''auth'', PStr (str ''bearer'')),
      (str ''response'', PStr (str ''200 OK''))]]\<close>

definition MOTHERGOOSE_CELERY_TASKS :: pyval where
  \<open>MOTHERGOOSE_CELERY_TASKS = PList [
    PDict [
      (str ''name'', PStr (str ''sync_nest_config'')),
      (str ''module'', PStr (str ''tasks.git_sync'')),
      (str ''queue'', PStr (str ''mothergoose.git_sync'')),
      (str ''description'', PStr (str ''Clone/pull the Nest repo, parse all .fly files via Gosling CLI, upsert egg_configs/jobs/uf_config in DB, write sync_history record.'')),
      (str ''triggered_by'', PList [
        PStr (str ''POST /internal/sync-git''),
        PStr (str ''YC Timer (5 min)''),
        PStr (str ''AWS EventBridge (5 min)''),
        PStr (str ''Nest push webhook'')])],
    PDict [
      (str ''name'', PStr (str ''process_webhook'')),
      (str ''module'', PStr (str ''tasks.webhooks'')),
      (str ''queue'', PStr (str ''mothergoose.webhooks'')),
      (str ''description'', PStr (str ''Handle a GitLab push/pipeline webhook: fetch EggConfig, resolve secrets, render Jinja2 templates, run tofu plan+apply, upsert Runner, write audit_log.'')),
      (str ''triggered_by'', PList [
        PStr (str ''POST /webhooks/gitlab'')])],
    PDict [
      (str ''name'', PStr (str ''deploy_runner'')),
      (str ''module'', PStr (str ''tasks.runners'')),
      (str ''queue'', PStr (str ''mothergoose.runners'')),
      (str ''description'', PStr (str ''Deploy a new runner for an egg using OpenTofu. Determines runner type (SERVERLESS/APEX/NADIR), renders templates, applies plan, stores DeploymentPlan.'')),
      (str ''triggered_by'', PList [
        PStr (str ''POST /eggs/{egg_name}/deploy''),
        PStr (str ''process_webhook'')])],
    PDict [
      (str ''name'', PStr (str ''terminate_runner'')),
      (str ''module'', PStr (str ''tasks.runners'')),
      (str ''queue'', PStr (str ''mothergoose.runners'')),
      (str ''description'', PStr (str ''Terminate a runner via OpenTofu destroy. Updates runner state to TERMINATED, writes audit_log.'')),
      (str ''triggered_by'', PList [
        PStr (str ''DELETE /runners/{runner_id}''),
        PStr (str ''UglyFox lifecycle tasks'')])],
    PDict [
      (str ''name'', PStr (str ''deploy_serverless_runner'')),
      (str ''module'', PStr (str ''tasks.runners'')),
      (str ''queue'', PStr (str ''mothergoose.runners'')),
      (str ''description'', PStr (str ''Deploy a YC Serverless Container or AWS ECS Fargate runner. Handles container image, resource limits, and cloud-specific config.'')),
      (str ''triggered_by'', PList [
        PStr (str ''deploy_runner (when type=SERVERLESS)'')])],
    PDict [
      (str ''name'', PStr (str ''cleanup_serverless_runner'')),
      (str ''module'', PStr (str ''tasks.runners'')),
      (str ''queue'', PStr (str ''mothergoose.runners'')),
      (str ''description'', PStr (str ''Clean up a serverless runner after job completion. Removes container, updates state.'')),
      (str ''triggered_by'', PList [
        PStr (str ''enforce_serverless_timeout''),
        PStr (str ''UglyFox pruning'')])],
    PDict [
      (str ''name'', PStr (str ''enforce_serverless_timeout'')),
      (str ''module'', PStr (str ''tasks.maintenance'')),
      (str ''queue'', PStr (str ''mothergoose.maintenance'')),
      (str ''description'', PStr (str ''Periodic task that finds serverless runners exceeding max runtime and triggers cleanup.'')),
      (str ''triggered_by'', PList [
        PStr (str ''Celery beat schedule'')])],
    PDict [
      (str ''name'', PStr (str ''cleanup_old_results'')),
      (str ''module'', PStr (str ''tasks.maintenance'')),
      (str ''queue'', PStr (str ''mothergoose.maintenance'')),
      (str ''description'', PStr (str ''Prune old Celery task results and expired sync_history records from the database.'')),
      (str ''triggered_by'', PList [
        PStr (str ''Celery beat schedule'')])],
    PDict [
      (str ''name'', PStr (str ''update_metrics'')),
      (str ''module'', PStr (str ''tasks.maintenance'')),
      (str ''queue'', PStr (str ''mothergoose.maintenance'')),
      (str ''description'', PStr (str ''Collect and publish runner/egg metrics to cloud monitoring (YC Monitoring / CloudWatch).'')),
      (str ''triggered_by'', PList [
        PStr (str ''Celery beat schedule'')])]]\<close>

definition MOTHERGOOSE_MODELS :: pyval where
  \<open>MOTHERGOOSE_MODELS = PDict [
    (str ''Runner'', PDict [
      (str ''description'', PStr (str ''Represents a deployed GitLab runner (VM or serverless container).'')),
      (str ''fields'', PDict [
        (str ''id'', PDict [
          (str ''type'', PStr (str ''str'')),
          (str ''description'', PStr (str ''Unique runner ID (UUID)''))]),
        (str ''egg_name'', PDict [
          (str ''type'', PStr (str ''str'')),
          (str ''description'', PStr (str ''Name of the Egg that owns this runner''))]),
        (str ''type'', PDict [
          (str ''type'', PStr (str ''RunnerType'')),
          (str ''enum'', PList [
            PStr (str ''SERVERLESS''),
            PStr (str ''APEX''),
            PStr (str ''NADIR'')]),
          (str ''description'', PStr (str ''Runner deployment type''))]),
        (str ''state'', PDict [
          (str ''type'', PStr (str ''RunnerState'')),
          (str ''enum'', PList [
            PStr (str ''ACTIVE''),
            PStr (str ''IDLE''),
            PStr (str ''BUSY''),
            PStr (str ''FAILED''),
            PStr (str ''TERMINATED'')]),
          (str ''description'', PStr (str ''Current runner state''))]),
        (str ''cloud_provider'', PDict [
          (str ''type'', PStr (str ''CloudProvider'')),
          (str ''enum'', PList [
            PStr (str ''YANDEX''),
            PStr (str ''AWS'')])]),
        (str ''region'', PDict [
          (str ''type'', PStr (str ''str'')),
          (str ''description'', PStr (str ''Cloud region (e.g. ru-central1, us-east-1)''))]),
        (str ''gitlab_runner_id'', PDict [
          (str ''type'', PStr (str ''int'')),
          (str ''description'', PStr (str ''GitLab runner registration ID''))]),
        (str ''deployed_from_commit'', PDict [
          (str ''type'', PStr (str ''str'')),
          (str ''description'', PStr (str ''Nest repo commit SHA used for deployment''))]),
        (str ''created_at'', PDict [
          (str ''type'', PStr (str ''datetime''))]),
        (str ''updated_at'', PDict [
          (str ''type'', PStr (str ''datetime''))]),
        (str ''last_heartbeat'', PDict [
          (str ''type'', PStr (str ''datetime'')),
          (str ''description'', PStr (str ''Last time UglyFox confirmed runner is alive''))]),
        (str ''failure_count'', PDict [
          (str ''type'', PStr (str ''int'')),
          (str ''description'', PStr (str ''Consecutive failure count, used by UglyFox pruning''))]),
        (str ''metadata'', PDict [
          (str ''type'', PStr (str ''dict'')),
          (str ''description'', PStr (str ''Cloud-specific metadata (instance ID, container ID, etc.)''))])])]),
    (str ''EggConfig'', PDict [
      (str ''description'', PStr (str ''Parsed configuration for a single Egg or EggsBucket from the Nest repo.'')),
      (str ''fields'', PDict [
        (str ''id'', PDict [
          (str ''type'', PStr (str ''str'')),
          (str ''description'', PStr (str ''UUID''))]),
        (str ''name'', PDict [
          (str ''type'', PStr (str ''str'')),
          (str ''description'', PStr (str ''Egg name (directory name under Eggs/)''))]),
        (str ''project_id'', PDict [
          (str ''type'', PStr (str ''int'')),
          (str ''description'', PStr (str ''GitLab project ID (single egg)''))]),
        (str ''group_id'', PDict [
          (str ''type'', PStr (str ''int'')),
          (str ''description'', PStr (str ''GitLab group ID (eggsbucket)''))]),
        (str ''config'', PDict [
          (str ''type'', PStr (str ''dict'')),
          (str ''description'', PStr (str ''Full parsed .fly config as dict''))]),
        (str ''git_commit'', PDict [
          (str ''type'', PStr (str ''str'')),
          (str ''description'', PStr (str ''Nest commit SHA when this config was synced''))]),
        (str ''git_repo_url_secret'', PDict [
          (str ''type'', PStr (str ''str'')),
          (str ''description'', PStr (str ''Secret URI for the repo URL''))]),
        (str ''gitlab_token_secret_uri'', PDict [
          (str ''type'', PStr (str ''str'')),
          (str ''description'', PStr (str ''Secret URI for GitLab registration token''))]),
        (str ''gitlab_webhook_secret_uri'', PDict [
          (str ''type'', PStr (str ''str'')),
          (str ''description'', PStr (str ''Secret URI for webhook validation token''))]),
        (str ''synced_at'', PDict [
          (str ''type'', PStr (str ''datetime''))]),
        (str ''created_at'', PDict [
          (str ''type'', PStr (str ''datetime''))]),
        (str ''updated_at'', PDict [
          (str ''type'', PStr (str ''datetime''))])])]),
    (str ''SyncHistory'', PDict [
      (str ''description'', PStr (str ''Record of a single Nest Git sync operation.'')),
      (str ''fields'', PDict [
        (str ''id'', PDict [
          (str ''type'', PStr (str ''str''))]),
        (str ''git_commit'', PDict [
          (str ''type'', PStr (str ''str''))]),
        (str ''sync_type'', PDict [
          (str ''type'', PStr (str ''str'')),
          (str ''enum'', PList [
            PStr (str ''scheduled''),
            PStr (str ''webhook''),
            PStr (str ''manual'')])]),
        (str ''status'', PDict [
          (str ''type'', PStr (str ''SyncStatus'')),
          (str ''enum'', PList [
            PStr (str ''SUCCESS''),
            PStr (str ''FAILED'')])]),
        (str ''changes_detected'', PDict [
          (str ''type'', PStr (str ''int''))]),
        (str ''eggs_synced'', PDict [
          (str ''type'', PStr (str ''int''))]),
        (str ''jobs_synced'', PDict [
          (str ''type'', PStr (str ''int''))]),
        (str ''uf_config_synced'', PDict [
          (str ''type'', PStr (str ''bool''))]),
        (str ''error_message'', PDict [
          (str ''type'', PStr (str ''str | None''))]),
        (str ''synced_at'', PDict [
          (str ''type'', PStr (str ''datetime''))]),
        (str ''duration_ms'', PDict [
          (str ''type'', PStr (str ''int''))])])]),
    (str ''DeploymentPlan'', PDict [
      (str ''description'', PStr (str ''Stored OpenTofu plan for a runner deployment, enabling rollback.'')),
      (str ''fields'', PDict [
        (str ''id'', PDict [
          (str ''type'', PStr (str ''str''))]),
        (str ''egg_name'', PDict [
          (str ''type'', PStr (str ''str''))]),
        (str ''plan_type'', PDict [
          (str ''type'', PStr (str ''str'')),
          (str ''enum'', PList [
            PStr (str ''deploy''),
            PStr (str ''terminate''),
            PStr (str ''update'')])]),
        (str ''config_hash'', PDict [
          (str ''type'', PStr (str ''str'')),
          (str ''description'', PStr (str ''SHA256 of the rendered Jinja2 config''))]),
        (str ''status'', PDict [
          (str ''type'', PStr (str ''DeploymentStatus'')),
          (str ''enum'', PList [
            PStr (str ''PENDING''),
            PStr (str ''APPLIED''),
            PStr (str ''ROLLED_BACK''),
            PStr (str ''FAILED'')])]),
        (str ''plan_binary'', PDict [
          (str ''type'', PStr (str ''bytes'')),
          (str ''description'', PStr (str ''Serialized OpenTofu plan binary''))]),
        (str ''rollback_plan_id'', PDict [
          (str ''type'', PStr (str ''str | None'')),
          (str ''description'', PStr (str ''ID of the plan to apply for rollback''))]),
        (str ''created_at'', PDict [
          (str ''type'', PStr (str ''datetime''))]),
        (str ''applied_at'', PDict [
          (str ''type'', PStr (str ''datetime | None''))]),
        (str ''metadata'', PDict [
          (str ''type'', PStr (str ''dict''))])])]),
    (str ''AuditLog'', PDict [
      (str ''description'', PStr (str ''Immutable audit trail for all system actions.'')),
      (str ''fields'', PDict [
        (str ''id'', PDict [
          (str ''type'', PStr (str ''str''))]),
        (str ''timestamp'', PDict [
          (str ''type'', PStr (str ''datetime''))]),
        (str ''actor'', PDict [
          (str ''type'', PStr (str ''str'')),
          (str ''description'', PStr (str ''Service or user that performed the action''))]),
        (str ''action'', PDict [
          (str ''type'', PStr (str ''str'')),
          (str ''description'', PStr (str ''Action name (e.g. runner.deploy, egg.sync)''))]),
        (str ''resource_type'', PDict [
          (str ''type'', PStr (str ''str''))]),
        (str ''resource_id'', PDict [
          (str ''type'', PStr (str ''str''))]),
        (str ''details'', PDict [
          (str ''type'', PStr (str ''dict''))])])])]\<close>

definition MOTHERGOOSE_SERVICES :: pyval where
  \<open>MOTHERGOOSE_SERVICES = PList [
    PDict [
      (str ''name'', PStr (str ''GitSyncService'')),
      (str ''module'', PStr (str ''services.git_sync_service'')),
      (str ''description'', PStr (str ''Clones/pulls the Nest repo via GitPython, delegates .fly parsing to FlyParserService, upserts results to DB.'')),
      (str ''methods'', PList [
        PStr (str ''sync_from_git(commit)''),
        PStr (str ''parse_eggs(path)''),
        PStr (str ''parse_jobs(path)''),
        PStr (str ''parse_uf_config(path)'')])],
    PDict [
      (str ''name'', PStr (str ''FlyParserService'')),
      (str ''module'', PStr (str ''services.fly_parser'')),
      (str ''description'', PStr (str ''Invokes the Gosling CLI binary as a subprocess to parse .fly files into JSON dicts.'')),
      (str ''methods'', PList [
        PStr (str ''parse_egg(path)''),
        PStr (str ''parse_job(path)''),
        PStr (str ''parse_uf_config(path)''),
        PStr (str ''_call_gosling_parse(path, type)'')])],
    PDict [
      (str ''name'', PStr (str ''SecretManager'')),
      (str ''module'', PStr (str ''services.secret_manager'')),
      (str ''description'', PStr (str ''Resolves secret URIs (yc-lockbox://, aws-sm://, vault://) to plaintext values. Uses SecretCache for TTL-based caching.'')),
      (str ''methods'', PList [
        PStr (str ''get_secret(uri)''),
        PStr (str ''_yc_lockbox(uri)''),
        PStr (str ''_aws_sm(uri)''),
        PStr (str ''_vault(uri)'')])],
    PDict [
      (str ''name'', PStr (str ''RunnerOrchestrationService'')),
      (str ''module'', PStr (str ''services.runner_orchestration'')),
      (str ''description'', PStr (str ''Orchestrates runner lifecycle: determines type, calls OpenTofuConfiguration to deploy/terminate, stores DeploymentPlan.'')),
      (str ''methods'', PList [
        PStr (str ''deploy_runner(egg)''),
        PStr (str ''terminate_runner(runner_id)''),
        PStr (str ''determine_runner_type(egg)'')])],
    PDict [
      (str ''name'', PStr (str ''OpenTofuConfiguration'')),
      (str ''module'', PStr (str ''services.opentofu_config'')),
      (str ''description'', PStr (str ''Renders Jinja2 templates from templates/ directory, generates and applies OpenTofu plans via tofupy.'')),
      (str ''methods'', PList [
        PStr (str ''render_templates(settings)''),
        PStr (str ''generate_plan()''),
        PStr (str ''apply_plan(plan)'')])],
    PDict [
      (str ''name'', PStr (str ''OpenTofuBinary / OpenTofuDownloadGithub / OpenTofuDownloadFromOtherSource'')),
      (str ''module'', PStr (str ''services.opentofu_binary'')),
      (str ''description'', PStr (str ''Abstract base + concrete implementations for downloading and extracting OpenTofu binaries from GitHub releases or custom sources.'')),
      (str ''methods'', PList [
        PStr (str ''store_downloaded_bin()''),
        PStr (str ''_download_and_extract(extract_to)'')])],
    PDict [
      (str ''name'', PStr (str ''GoslingBinaryManager'')),
      (str ''module'', PStr (str ''services.gosling_manager'')),
      (str ''description'', PStr (str ''Manages Gosling CLI binary versions: mounts from S3/object storage, verifies SHA256, activates a version for use by FlyParserService.'')),
      (str ''methods'', PList [
        PStr (str ''mount_s3_binaries()''),
        PStr (str ''get_active_binary_path()''),
        PStr (str ''verify_and_activate(version)'')])],
    PDict [
      (str ''name'', PStr (str ''EggService'')),
      (str ''module'', PStr (str ''services.egg_service'')),
      (str ''description'', PStr (str ''CRUD operations for EggConfig records. Used by routers and git sync.'')),
      (str ''methods'', PList [
        PStr (str ''get_egg(name)''),
        PStr (str ''list_eggs()''),
        PStr (str ''upsert_egg(config)''),
        PStr (str ''delete_egg(name)'')])],
    PDict [
      (str ''name'', PStr (str ''DeploymentPlanService'')),
      (str ''module'', PStr (str ''services.deployment_plan_service'')),
      (str ''description'', PStr (str ''Creates, stores, applies, and rolls back OpenTofu deployment plans.'')),
      (str ''methods'', PList [
        PStr (str ''create_plan(egg_name, config)''),
        PStr (str ''apply_plan(plan_id)''),
        PStr (str ''rollback(plan_id)'')])]]\<close>

definition MOTHERGOOSE_ENV_VARS :: pyval where
  \<open>MOTHERGOOSE_ENV_VARS = PList [
    PDict [
      (str ''name'', PStr (str ''MOTHERGOOSE_DB_BACKEND'')),
      (str ''type'', PStr (str ''str'')),
      (str ''values'', PList [
        PStr (str ''ydb''),
        PStr (str ''dynamodb'')]),
      (str ''description'', PStr (str ''Database backend to use''))],
    PDict [
      (str ''name'', PStr (str ''MOTHERGOOSE_YDB_ENDPOINT'')),
      (str ''type'', PStr (str ''str'')),
      (str ''description'', PStr (str ''YDB gRPC endpoint (e.g. grpcs://ydb.serverless.yandexcloud.net:2135)''))],
    PDict [
      (str ''name'', PStr (str ''MOTHERGOOSE_YDB_DATABASE'')),
      (str ''type'', PStr (str ''str'')),
      (str ''description'', PStr (str ''YDB database path''))],
    PDict [
      (str ''name'', PStr (str ''MOTHERGOOSE_DYNAMODB_TABLE_PREFIX'')),
      (str ''type'', PStr (str ''str'')),
      (str ''description'', PStr (str ''Prefix for DynamoDB table names''))],
    PDict [
      (str ''name'', PStr (str ''MOTHERGOOSE_AWS_REGION'')),
      (str ''type'', PStr (str ''str'')),
      (str ''description'', PStr (str ''AWS region for DynamoDB/SQS/Secrets Manager''))],
    PDict [
      (str ''name'', PStr (str ''MOTHERGOOSE_CELERY_BROKER_URL'')),
      (str ''type'', PStr (str ''str'')),
      (str ''description'', PStr (str ''Celery broker URL (SQS or YMQ endpoint)''))],
    PDict [
      (str ''name'', PStr (str ''MOTHERGOOSE_CELERY_RESULT_BACKEND'')),
      (str ''type'', PStr (str ''str'')),
      (str ''description'', PStr (str ''Celery result backend URL''))],
    PDict [
      (str ''name'', PStr (str ''MOTHERGOOSE_NEST_REPO_URL_SECRET'')),
      (str ''type'', PStr (str ''str'')),
      (str ''description'', PStr (str ''Secret URI for the Nest Git repo URL''))],
    PDict [
      (str ''name'', PStr (str ''MOTHERGOOSE_NEST_REPO_BRANCH'')),
      (str ''type'', PStr (str ''str'')),
      (str ''default'', PStr (str ''main'')),
      (str ''description'', PStr (str ''Nest repo branch to sync''))],
    PDict [
      (str ''name'', PStr (str ''MOTHERGOOSE_INTERNAL_SECRET_TOKEN'')),
      (str ''type'', PStr (str ''str'')),
      (str ''description'', PStr (str ''Token for /internal/* endpoints''))],
    PDict [
      (str ''name'', PStr (str ''MOTHERGOOSE_OPENTOFU_BINARY_PATH'')),
      (str ''type'', PStr (str ''str'')),
      (str ''description'', PStr (str ''Path to the active OpenTofu binary''))],
    PDict [
      (str ''name'', PStr (str ''MOTHERGOOSE_GOSLING_BINARY_PATH'')),
      (str ''type'', PStr (str ''str'')),
      (str ''description'', PStr (str ''Path to the active Gosling CLI binary''))],
    PDict [
      (str ''name'', PStr (str ''MOTHERGOOSE_SECRET_CACHE_TTL'')),
      (str ''type'', PStr (str ''int'')),
      (str ''default'', PInt 300),
      (str ''description'', PStr (str ''Secret cache TTL in seconds''))],
    PDict [
      (str ''name'', PStr (str ''MOTHERGOOSE_LOG_LEVEL'')),
      (str ''type'', PStr (str ''str'')),
      (str ''default'', PStr (str ''INFO'')),
      (str ''values'', PList [
        PStr (str ''DEBUG''),
        PStr (str ''INFO''),
        PStr (str ''WARNING''),
        PStr (str ''ERROR'')])],
    PDict [
      (str ''name'', PStr (str ''MOTHERGOOSE_YC_FOLDER_ID'')),
      (str ''type'', PStr (str ''str'')),
      (str ''description'', PStr (str ''Yandex Cloud folder ID for resource provisioning''))],
    PDict [
      (str ''name'', PStr (str ''MOTHERGOOSE_COMPUTE_MODULE_SOURCE'')),
      (str ''type'', PStr (str ''str'')),
      (str ''description'', PStr (str ''OpenTofu module source path or registry URL''))]]\<close>

subsection \<open>The data of \<^verbatim>\<open>data/uglyfox.py\<close>\<close>

definition UGLYFOX_CELERY_TASKS :: pyval where
  \<open>UGLYFOX_CELERY_TASKS = PList [
    PDict [
      (str ''name'', PStr (str ''check_runner_health'')),
      (str ''module'', PStr (str ''tasks.health'')),
      (str ''queue'', PStr (str ''uglyfox.health'')),
      (str ''schedule'', PStr (str ''every 60 seconds'')),
      (str ''description'', PStr (str ''Polls all ACTIVE/IDLE/BUSY runners for heartbeat. Updates last_heartbeat and state. Increments failure_count on no response.''))],
    PDict [
      (str ''name'', PStr (str ''collect_runner_metrics'')),
      (str ''module'', PStr (str ''tasks.health'')),
      (str ''queue'', PStr (str ''uglyfox.health'')),
      (str ''schedule'', PStr (str ''every 5 minutes'')),
      (str ''description'', PStr (str ''Collects CPU/memory/job metrics from runners and publishes to cloud monitoring.''))],
    PDict [
      (str ''name'', PStr (str ''identify_unhealthy_runners'')),
      (str ''module'', PStr (str ''tasks.health'')),
      (str ''queue'', PStr (str ''uglyfox.health'')),
      (str ''schedule'', PStr (str ''every 2 minutes'')),
      (str ''description'', PStr (str ''Finds runners with failure_count exceeding threshold or stale heartbeat. Marks them FAILED and enqueues pruning.''))],
    PDict [
      (str ''name'', PStr (str ''manage_apex_nadir_pools'')),
      (str ''module'', PStr (str ''tasks.lifecycle'')),
      (str ''queue'', PStr (str ''uglyfox.lifecycle'')),
      (str ''schedule'', PStr (str ''every 5 minutes'')),
      (str ''description'', PStr (str ''Evaluates Apex/Nadir pool sizes per egg against UF config targets. Triggers promotions or demotions as needed.''))],
    PDict [
      (str ''name'', PStr (str ''promote_nadir_to_apex'')),
      (str ''module'', PStr (str ''tasks.lifecycle'')),
      (str ''queue'', PStr (str ''uglyfox.lifecycle'')),
      (str ''description'', PStr (str ''Promotes a NADIR (dormant) runner to APEX (active) state. Sends Celery task to MotherGoose to reconfigure the runner.'')),
      (str ''triggered_by'', PList [
        PStr (str ''manage_apex_nadir_pools'')])],
    PDict [
      (str ''name'', PStr (str ''demote_apex_to_nadir'')),
      (str ''module'', PStr (str ''tasks.lifecycle'')),
      (str ''queue'', PStr (str ''uglyfox.lifecycle'')),
      (str ''description'', PStr (str ''Demotes an APEX runner to NADIR state when pool is oversized or runner is idle beyond threshold.'')),
      (str ''triggered_by'', PList [
        PStr (str ''manage_apex_nadir_pools'')])],
    PDict [
      (str ''name'', PStr (str ''transition_runner_state'')),
      (str ''module'', PStr (str ''tasks.lifecycle'')),
      (str ''queue'', PStr (str ''uglyfox.lifecycle'')),
      (str ''description'', PStr (str ''Generic state machine transition for a runner. Validates allowed transitions and writes audit_log.'')),
      (str ''triggered_by'', PList [
        PStr (str ''promote_nadir_to_apex''),
        PStr (str ''demote_apex_to_nadir''),
        PStr (str ''prune_failed_runners'')])],
    PDict [
      (str ''name'', PStr (str ''evaluate_pruning_policies'')),
      (str ''module'', PStr (str ''tasks.pruning'')),
      (str ''queue'', PStr (str ''uglyfox.pruning'')),
      (str ''schedule'', PStr (str ''every 10 minutes'')),
      (str ''description'', PStr (str ''Reads UF/config.fly pruning rules from DB. Identifies runners that violate max_age, max_failures, or idle_timeout policies.''))],
    PDict [
      (str ''name'', PStr (str ''prune_failed_runners'')),
      (str ''module'', PStr (str ''tasks.pruning'')),
      (str ''queue'', PStr (str ''uglyfox.pruning'')),
      (str ''description'', PStr (str ''Terminates runners in FAILED state that exceed the failure threshold. Sends terminate_runner task to MotherGoose.'')),
      (str ''triggered_by'', PList [
        PStr (str ''evaluate_pruning_policies''),
        PStr (str ''identify_unhealthy_runners'')])],
    PDict [
      (str ''name'', PStr (str ''prune_old_runners'')),
      (str ''module'', PStr (str ''tasks.pruning'')),
      (str ''queue'', PStr (str ''uglyfox.pruning'')),
      (str ''description'', PStr (str ''Terminates runners that exceed max_age_hours from UF config. Ensures runner fleet stays fresh.'')),
      (str ''triggered_by'', PList [
        PStr (str ''evaluate_pruning_policies'')])],
    PDict [
      (str ''name'', PStr (str ''terminate_runner'')),
      (str ''module'', PStr (str ''tasks.pruning'')),
      (str ''queue'', PStr (str ''uglyfox.pruning'')),
      (str ''description'', PStr (str ''Sends a terminate_runner Celery task to MotherGoose via SQS/YMQ. UglyFox does not call OpenTofu directly.'')),
      (str ''triggered_by'', PList [
        PStr (str ''prune_failed_runners''),
        PStr (str ''prune_old_runners'')])]]\<close>

definition UGLYFOX_CONFIG_SCHEMA :: pyval where
  \<open>UGLYFOX_CONFIG_SCHEMA = PDict [
    (str ''description'', PStr (str ''Schema for UF/config.fly '' @ [8212] @ str '' UglyFox lifecycle and pruning configuration.'')),
    (str ''file_location'', PStr (str ''Nest/UF/config.fly'')),
    (str ''top_level_block'', PStr (str ''uglyfox'')),
    (str ''blocks'', PDict [
      (str ''pruning'', PDict [
        (str ''description'', PStr (str ''Global pruning policies applied to all runners unless overridden per-egg.'')),
        (str ''attributes'', PDict [
          (str ''max_age_hours'', PDict [
            (str ''type'', PStr (str ''number'')),
            (str ''description'', PStr (str ''Maximum runner age before forced termination''))]),
          (str ''max_failures'', PDict [
            (str ''type'', PStr (str ''number'')),
            (str ''description'', PStr (str ''Consecutive failure count before pruning''))]),
          (str ''idle_timeout_minutes'', PDict [
            (str ''type'', PStr (str ''number'')),
            (str ''description'', PStr (str ''Minutes idle before APEX'' @ [8594] @ str ''NADIR demotion''))]),
          (str ''check_interval_seconds'', PDict [
            (str ''type'', PStr (str ''number'')),
            (str ''default'', PInt 60),
            (str ''description'', PStr (str ''Health check polling interval''))])])]),
      (str ''runners_condition'', PDict [
        (str ''description'', PStr (str ''Per-egg overrides for pruning conditions.'')),
        (str ''attributes'', PDict [
          (str ''egg_name'', PDict [
            (str ''type'', PStr (str ''string'')),
            (str ''description'', PStr (str ''Target egg name''))]),
          (str ''max_age_hours'', PDict [
            (str ''type'', PStr (str ''number'')),
            (str ''description'', PStr (str ''Override global max_age_hours''))]),
          (str ''max_failures'', PDict [
            (str ''type'', PStr (str ''number'')),
            (str ''description'', PStr (str ''Override global max_failures''))])])]),
      (str ''apex_pool'', PDict [
        (str ''description'', PStr (str ''Apex (active) runner pool configuration.'')),
        (str ''attributes'', PDict [
          (str ''min_size'', PDict [
            (str ''type'', PStr (str ''number'')),
            (str ''description'', PStr (str ''Minimum number of APEX runners to maintain''))]),
          (str ''max_size'', PDict [
            (str ''type'', PStr (str ''number'')),
            (str ''description'', PStr (str ''Maximum APEX runners allowed''))]),
          (str ''scale_up_threshold'', PDict [
            (str ''type'', PStr (str ''number'')),
            (str ''description'', PStr (str ''Job queue depth to trigger scale-up''))])])]),
      (str ''nadir_pool'', PDict [
        (str ''description'', PStr (str ''Nadir (dormant/warm standby) runner pool configuration.'')),
        (str ''attributes'', PDict [
          (str ''min_size'', PDict [
            (str ''type'', PStr (str ''number'')),
            (str ''description'', PStr (str ''Minimum NADIR runners to keep warm''))]),
          (str ''max_size'', PDict [
            (str ''type'', PStr (str ''number'')),
            (str ''description'', PStr (str ''Maximum NADIR runners allowed''))]),
          (str ''warmup_time_seconds'', PDict [
            (str ''type'', PStr (str ''number'')),
            (str ''description'', PStr (str ''Expected time to promote NADIR'' @ [8594] @ str ''APEX''))])])])]),
    (str ''example'', PStr (str ''\<newline>uglyfox {\<newline>  pruning {\<newline>    max_age_hours          = 72\<newline>    max_failures           = 5\<newline>    idle_timeout_minutes   = 30\<newline>    check_interval_seconds = 60\<newline>  }\<newline>\<newline>  apex_pool {\<newline>    min_size           = 1\<newline>    max_size           = 10\<newline>    scale_up_threshold = 5\<newline>  }\<newline>\<newline>  nadir_pool {\<newline>    min_size            = 0\<newline>    max_size            = 5\<newline>    warmup_time_seconds = 30\<newline>  }\<newline>\<newline>  runners_condition {\<newline>    egg_name     = "my-project"\<newline>    max_failures = 3\<newline>  }\<newline>}\<newline>''))]\<close>

definition UGLYFOX_ENV_VARS :: pyval where
  \<open>UGLYFOX_ENV_VARS = PList [
    PDict [
      (str ''name'', PStr (str ''UGLYFOX_DB_BACKEND'')),
      (str ''type'', PStr (str ''str'')),
      (str ''values'', PList [
        PStr (str ''ydb''),
        PStr (str ''dynamodb'')]),
      (str ''description'', PStr (str ''Database backend''))],
    PDict [
      (str ''name'', PStr (str ''UGLYFOX_YDB_ENDPOINT'')),
      (str ''type'', PStr (str ''str'')),
      (str ''description'', PStr (str ''YDB gRPC endpoint''))],
    PDict [
      (str ''name'', PStr (str ''UGLYFOX_YDB_DATABASE'')),
      (str ''type'', PStr (str ''str'')),
      (str ''description'', PStr (str ''YDB database path''))],
    PDict [
      (str ''name'', PStr (str ''UGLYFOX_DYNAMODB_TABLE_PREFIX'')),
      (str ''type'', PStr (str ''str'')),
      (str ''description'', PStr (str ''DynamoDB table name prefix''))],
    PDict [
      (str ''name'', PStr (str ''UGLYFOX_AWS_REGION'')),
      (str ''type'', PStr (str ''str'')),
      (str ''description'', PStr (str ''AWS region''))],
    PDict [
      (str ''name'', PStr (str ''UGLYFOX_CELERY_BROKER_URL'')),
      (str ''type'', PStr (str ''str'')),
      (str ''description'', PStr (str ''Celery broker URL (SQS or YMQ)''))],
    PDict [
      (str ''name'', PStr (str ''UGLYFOX_CELERY_RESULT_BACKEND'')),
      (str ''type'', PStr (str ''str'')),
      (str ''description'', PStr (str ''Celery result backend URL''))],
    PDict [
      (str ''name'', PStr (str ''UGLYFOX_MOTHERGOOSE_QUEUE'')),
      (str ''type'', PStr (str ''str'')),
      (str ''description'', PStr (str ''Queue name for sending tasks to MotherGoose''))],
    PDict [
      (str ''name'', PStr (str ''UGLYFOX_HEALTH_CHECK_INTERVAL'')),
      (str ''type'', PStr (str ''int'')),
      (str ''default'', PInt 60),
      (str ''description'', PStr (str ''Runner health check interval in seconds''))],
    PDict [
      (str ''name'', PStr (str ''UGLYFOX_LOG_LEVEL'')),
      (str ''type'', PStr (str ''str'')),
      (str ''default'', PStr (str ''INFO'')),
      (str ''values'', PList [
        PStr (str ''DEBUG''),
        PStr (str ''INFO''),
        PStr (str ''WARNING''),
        PStr (str ''ERROR'')])],
    PDict [
      (str ''name'', PStr (str ''UGLYFOX_YC_FOLDER_ID'')),
      (str ''type'', PStr (str ''str'')),
      (str ''description'', PStr (str ''Yandex Cloud folder ID''))]]\<close>

subsection \<open>The data of \<^verbatim>\<open>data/gosling.py\<close>\<close>

definition GOSLING_COMMANDS :: pyval where
  \<open>GOSLING_COMMANDS = PList [
    PDict [
      (str ''name'', PStr (str ''init'')),
      (str ''usage'', PStr (str ''gosling init [flags]'')),
      (str ''description'', PStr (str ''Initialize a new Nest repository structure. Creates Eggs/, Jobs/, UF/, MG/ directories with starter .fly files.'')),
      (str ''flags'', PList [
        PDict [
          (str ''flag'', PStr (str ''--name'')),
          (str ''short'', PStr (str ''-n'')),
          (str ''type'', PStr (str ''string'')),
          (str ''description'', PStr (str ''Nest repository name''))],
        PDict [
          (str ''flag'', PStr (str ''--cloud'')),
          (str ''short'', PStr (str ''-c'')),
          (str ''type'', PStr (str ''string'')),
          (str ''values'', PList [
            PStr (str ''yandex''),
            PStr (str ''aws''),
            PStr (str ''both'')]),
          (str ''description'', PStr (str ''Target cloud provider(s)''))],
        PDict [
          (str ''flag'', PStr (str ''--output'')),
          (str ''short'', PStr (str ''-o'')),
          (str ''type'', PStr (str ''string'')),
          (str ''default'', PStr (str ''.'')),
          (str ''description'', PStr (str ''Output directory''))]]),
      (str ''example'', PStr (str ''gosling init --name my-nest --cloud both''))],
    PDict [
      (str ''name'', PStr (str ''add egg'')),
      (str ''usage'', PStr (str ''gosling add egg <name> [flags]'')),
      (str ''description'', PStr (str ''Scaffold a new Egg config.fly under Eggs/<name>/. Prompts for runner type, cloud provider, and GitLab project ID.'')),
      (str ''flags'', PList [
        PDict [
          (str ''flag'', PStr (str ''--type'')),
          (str ''short'', PStr (str ''-t'')),
          (str ''type'', PStr (str ''string'')),
          (str ''values'', PList [
            PStr (str ''egg''),
            PStr (str ''eggsbucket'')]),
          (str ''default'', PStr (str ''egg'')),
          (str ''description'', PStr (str ''Egg type''))],
        PDict [
          (str ''flag'', PStr (str ''--cloud'')),
          (str ''short'', PStr (str ''-c'')),
          (str ''type'', PStr (str ''string'')),
          (str ''values'', PList [
            PStr (str ''yandex''),
            PStr (str ''aws'')]),
          (str ''description'', PStr (str ''Cloud provider''))],
        PDict [
          (str ''flag'', PStr (str ''--runner-type'')),
          (str ''type'', PStr (str ''string'')),
          (str ''values'', PList [
            PStr (str ''serverless''),
            PStr (str ''apex''),
            PStr (str ''nadir'')]),
          (str ''description'', PStr (str ''Runner deployment type''))],
        PDict [
          (str ''flag'', PStr (str ''--project-id'')),
          (str ''type'', PStr (str ''int'')),
          (str ''description'', PStr (str ''GitLab project ID (egg only)''))],
        PDict [
          (str ''flag'', PStr (str ''--group-id'')),
          (str ''type'', PStr (str ''int'')),
          (str ''description'', PStr (str ''GitLab group ID (eggsbucket only)''))]]),
      (str ''example'', PStr (str ''gosling add egg my-service --cloud yandex --runner-type serverless --project-id 12345''))],
    PDict [
      (str ''name'', PStr (str ''add job'')),
      (str ''usage'', PStr (str ''gosling add job <name> [flags]'')),
      (str ''description'', PStr (str ''Scaffold a new Job .fly file under Jobs/<name>.fly.'')),
      (str ''flags'', PList [
        PDict [
          (str ''flag'', PStr (str ''--schedule'')),
          (str ''short'', PStr (str ''-s'')),
          (str ''type'', PStr (str ''string'')),
          (str ''description'', PStr (str ''Cron schedule expression''))],
        PDict [
          (str ''flag'', PStr (str ''--cloud'')),
          (str ''short'', PStr (str ''-c'')),
          (str ''type'', PStr (str ''string'')),
          (str ''values'', PList [
            PStr (str ''yandex''),
            PStr (str ''aws'')]),
          (str ''description'', PStr (str ''Cloud provider for the job runner''))]]),
      (str ''example'', PStr (str ''gosling add job rotate-secrets --schedule '' @ [39] @ str ''0 2 * * *'' @ [39] @ str '' --cloud aws''))],
    PDict [
      (str ''name'', PStr (str ''validate'')),
      (str ''usage'', PStr (str ''gosling validate [path] [flags]'')),
      (str ''description'', PStr (str ''Validate .fly files in the given path (or current directory). Checks syntax, required fields, type constraints, and secret URI formats.'')),
      (str ''flags'', PList [
        PDict [
          (str ''flag'', PStr (str ''--path'')),
          (str ''short'', PStr (str ''-p'')),
          (str ''type'', PStr (str ''string'')),
          (str ''default'', PStr (str ''.'')),
          (str ''description'', PStr (str ''Path to validate''))],
        PDict [
          (str ''flag'', PStr (str ''--strict'')),
          (str ''type'', PStr (str ''bool'')),
          (str ''description'', PStr (str ''Fail on warnings in addition to errors''))],
        PDict [
          (str ''flag'', PStr (str ''--format'')),
          (str ''type'', PStr (str ''string'')),
          (str ''values'', PList [
            PStr (str ''text''),
            PStr (str ''json'')]),
          (str ''default'', PStr (str ''text'')),
          (str ''description'', PStr (str ''Output format''))]]),
      (str ''example'', PStr (str ''gosling validate ./Eggs/my-service --format json'')),
      (str ''exit_codes'', PDict [
        (str ''0'', PStr (str ''valid'')),
        (str ''1'', PStr (str ''validation errors'')),
        (str ''2'', PStr (str ''parse error''))])],
    PDict [
      (str ''name'', PStr (str ''parse'')),
      (str ''usage'', PStr (str ''gosling parse <file> [flags]'')),
      (str ''description'', PStr (str ''Parse a single .fly file and output the result as JSON. Used internally by MotherGoose FlyParserService via subprocess.'')),
      (str ''flags'', PList [
        PDict [
          (str ''flag'', PStr (str ''--type'')),
          (str ''short'', PStr (str ''-t'')),
          (str ''type'', PStr (str ''string'')),
          (str ''values'', PList [
            PStr (str ''egg''),
            PStr (str ''eggsbucket''),
            PStr (str ''job''),
            PStr (str ''uglyfox''),
            PStr (str ''mothergoose'')]),
          (str ''required'', PBool True),
          (str ''description'', PStr (str ''Block type to parse''))],
        PDict [
          (str ''flag'', PStr (str ''--output'')),
          (str ''short'', PStr (str ''-o'')),
          (str ''type'', PStr (str ''string'')),
          (str ''values'', PList [
            PStr (str ''json''),
            PStr (str ''pretty'')]),
          (str ''default'', PStr (str ''json'')),
          (str ''description'', PStr (str ''Output format''))]]),
      (str ''example'', PStr (str ''gosling parse Eggs/my-service/config.fly --type egg'')),
      (str ''stdout'', PStr (str ''JSON representation of the parsed block'')),
      (str ''stderr'', PStr (str ''Validation errors if any''))],
    PDict [
      (str ''name'', PStr (str ''deploy'')),
      (str ''usage'', PStr (str ''gosling deploy <egg-name> [flags]'')),
      (str ''description'', PStr (str ''Trigger a runner deployment for an egg via the MotherGoose API (POST /eggs/{egg_name}/deploy).'')),
      (str ''flags'', PList [
        PDict [
          (str ''flag'', PStr (str ''--server'')),
          (str ''short'', PStr (str ''-s'')),
          (str ''type'', PStr (str ''string'')),
          (str ''description'', PStr (str ''MotherGoose API base URL''))],
        PDict [
          (str ''flag'', PStr (str ''--token'')),
          (str ''type'', PStr (str ''string'')),
          (str ''description'', PStr (str ''Bearer token for MotherGoose API auth''))],
        PDict [
          (str ''flag'', PStr (str ''--wait'')),
          (str ''short'', PStr (str ''-w'')),
          (str ''type'', PStr (str ''bool'')),
          (str ''description'', PStr (str ''Wait for deployment to complete''))],
        PDict [
          (str ''flag'', PStr (str ''--timeout'')),
          (str ''type'', PStr (str ''int'')),
          (str ''default'', PInt 300),
          (str ''description'', PStr (str ''Wait timeout in seconds''))]]),
      (str ''example'', PStr (str ''gosling deploy my-service --server https://mg.example.com --wait''))],
    PDict [
      (str ''name'', PStr (str ''rollback'')),
      (str ''usage'', PStr (str ''gosling rollback <egg-name> [flags]'')),
      (str ''description'', PStr (str ''Roll back the last deployment for an egg by applying the stored rollback plan via MotherGoose API.'')),
      (str ''flags'', PList [
        PDict [
          (str ''flag'', PStr (str ''--server'')),
          (str ''short'', PStr (str ''-s'')),
          (str ''type'', PStr (str ''string'')),
          (str ''description'', PStr (str ''MotherGoose API base URL''))],
        PDict [
          (str ''flag'', PStr (str ''--token'')),
          (str ''type'', PStr (str ''string'')),
          (str ''description'', PStr (str ''Bearer token''))],
        PDict [
          (str ''flag'', PStr (str ''--plan-id'')),
          (str ''type'', PStr (str ''string'')),
          (str ''description'', PStr (str ''Specific deployment plan ID to roll back to (defaults to last)''))]]),
      (str ''example'', PStr (str ''gosling rollback my-service --server https://mg.example.com''))],
    PDict [
      (str ''name'', PStr (str ''status'')),
      (str ''usage'', PStr (str ''gosling status [egg-name] [flags]'')),
      (str ''description'', PStr (str ''Show runner status for an egg (or all eggs) by querying the MotherGoose API.'')),
      (str ''flags'', PList [
        PDict [
          (str ''flag'', PStr (str ''--server'')),
          (str ''short'', PStr (str ''-s'')),
          (str ''type'', PStr (str ''string'')),
          (str ''description'', PStr (str ''MotherGoose API base URL''))],
        PDict [
          (str ''flag'', PStr (str ''--token'')),
          (str ''type'', PStr (str ''string'')),
          (str ''description'', PStr (str ''Bearer token''))],
        PDict [
          (str ''flag'', PStr (str ''--format'')),
          (str ''type'', PStr (str ''string'')),
          (str ''values'', PList [
            PStr (str ''table''),
            PStr (str ''json'')]),
          (str ''default'', PStr (str ''table'')),
          (str ''description'', PStr (str ''Output format''))],
        PDict [
          (str ''flag'', PStr (str ''--watch'')),
          (str ''short'', PStr (str ''-w'')),
          (str ''type'', PStr (str ''bool'')),
          (str ''description'', PStr (str ''Continuously poll and refresh status''))]]),
      (str ''example'', PStr (str ''gosling status my-service --server https://mg.example.com --format json''))]]\<close>

definition FLY_LANGUAGE_REFERENCE :: pyval where
  \<open>FLY_LANGUAGE_REFERENCE = PDict [
    (str ''description'', PStr (str ''.fly is an HCL-like DSL with stronger typing used to define all Polar Gosling configuration. Parsed by the Gosling CLI.'')),
    (str ''syntax_rules'', PList [
      PStr (str ''Block syntax: block_type '' @ [39] @ str ''label'' @ [39] @ str '' { ... } or block_type { ... }''),
      PStr (str ''Attribute syntax: key = value''),
      PStr (str ''String values use double quotes''),
      PStr (str ''Numbers are unquoted''),
      PStr (str ''Booleans: true / false''),
      PStr (str ''Lists: [item1, item2]''),
      PStr (str ''Secret URIs are strings with scheme prefix: yc-lockbox://, aws-sm://, vault://''),
      PStr (str ''Comments: # single line'')]),
    (str ''type_system'', PDict [
      (str ''string'', PStr (str ''Double-quoted UTF-8 string'')),
      (str ''number'', PStr (str ''Integer or float'')),
      (str ''bool'', PStr (str ''true or false'')),
      (str ''list(string)'', PStr (str ''List of strings'')),
      (str ''list(number)'', PStr (str ''List of numbers'')),
      (str ''secret_uri'', PStr (str ''String matching yc-lockbox://, aws-sm://, or vault:// scheme'')),
      (str ''cron'', PStr (str ''Standard 5-field cron expression string'')),
      (str ''duration'', PStr (str ''String with unit suffix: 30s, 5m, 2h, 7d'')),
      (str ''memory'', PStr (str ''String with unit: 256MB, 1GB, 2048MB'')),
      (str ''cpu'', PStr (str ''Number of vCPUs (float allowed: 0.5, 1, 2)''))]),
    (str ''block_types'', PDict [
      (str ''egg'', PDict [
        (str ''location'', PStr (str ''Eggs/<name>/config.fly'')),
        (str ''description'', PStr (str ''Single managed GitLab project runner configuration.'')),
        (str ''required_attributes'', PDict [
          (str ''gitlab_server'', PDict [
            (str ''type'', PStr (str ''string'')),
            (str ''description'', PStr (str ''GitLab instance URL''))]),
          (str ''project_id'', PDict [
            (str ''type'', PStr (str ''number'')),
            (str ''description'', PStr (str ''GitLab project ID''))]),
          (str ''gitlab_token_secret'', PDict [
            (str ''type'', PStr (str ''secret_uri'')),
            (str ''description'', PStr (str ''Runner registration token secret''))]),
          (str ''gitlab_webhook_secret'', PDict [
            (str ''type'', PStr (str ''secret_uri'')),
            (str ''description'', PStr (str ''Webhook validation token secret''))]),
          (str ''git_repo_url_secret'', PDict [
            (str ''type'', PStr (str ''secret_uri'')),
            (str ''description'', PStr (str ''Repository URL secret''))]),
          (str ''cloud_provider'', PDict [
            (str ''type'', PStr (str ''string'')),
            (str ''values'', PList [
              PStr (str ''yandex''),
              PStr (str ''aws'')]),
            (str ''description'', PStr (str ''Target cloud''))]),
          (str ''region'', PDict [
            (str ''type'', PStr (str ''string'')),
            (str ''description'', PStr (str ''Cloud region''))]),
          (str ''runner_type'', PDict [
            (str ''type'', PStr (str ''string'')),
            (str ''values'', PList [
              PStr (str ''serverless''),
              PStr (str ''apex''),
              PStr (str ''nadir'')])])]),
        (str ''optional_attributes'', PDict [
          (str ''tags'', PDict [
            (str ''type'', PStr (str ''list(string)'')),
            (str ''description'', PStr (str ''GitLab runner tags''))]),
          (str ''cpu'', PDict [
            (str ''type'', PStr (str ''cpu'')),
            (str ''default'', PStr (str ''1''))]),
          (str ''memory'', PDict [
            (str ''type'', PStr (str ''memory'')),
            (str ''default'', PStr (str ''512MB''))]),
          (str ''max_concurrent_jobs'', PDict [
            (str ''type'', PStr (str ''number'')),
            (str ''default'', PInt 1)]),
          (str ''runner_image'', PDict [
            (str ''type'', PStr (str ''string'')),
            (str ''description'', PStr (str ''Container image for the runner''))]),
          (str ''environment'', PDict [
            (str ''type'', PStr (str ''list(string)'')),
            (str ''description'', PStr (str ''Extra environment variables''))])])]),
      (str ''eggsbucket'', PDict [
        (str ''location'', PStr (str ''Eggs/<name>/config.fly'')),
        (str ''description'', PStr (str ''Group of GitLab projects sharing a single runner configuration.'')),
        (str ''required_attributes'', PDict [
          (str ''gitlab_server'', PDict [
            (str ''type'', PStr (str ''string''))]),
          (str ''group_id'', PDict [
            (str ''type'', PStr (str ''number'')),
            (str ''description'', PStr (str ''GitLab group ID''))]),
          (str ''gitlab_token_secret'', PDict [
            (str ''type'', PStr (str ''secret_uri''))]),
          (str ''gitlab_webhook_secret'', PDict [
            (str ''type'', PStr (str ''secret_uri''))]),
          (str ''cloud_provider'', PDict [
            (str ''type'', PStr (str ''string'')),
            (str ''values'', PList [
              PStr (str ''yandex''),
              PStr (str ''aws'')])]),
          (str ''region'', PDict [
            (str ''type'', PStr (str ''string''))]),
          (str ''runner_type'', PDict [
            (str ''type'', PStr (str ''string'')),
            (str ''values'', PList [
              PStr (str ''serverless''),
              PStr (str ''apex''),
              PStr (str ''nadir'')])])]),
        (str ''optional_attributes'', PDict [
          (str ''tags'', PDict [
            (str ''type'', PStr (str ''list(string)''))]),
          (str ''cpu'', PDict [
            (str ''type'', PStr (str ''cpu''))]),
          (str ''memory'', PDict [
            (str ''type'', PStr (str ''memory''))]),
          (str ''project_ids'', PDict [
            (str ''type'', PStr (str ''list(number)'')),
            (str ''description'', PStr (str ''Explicit project IDs within the group''))])])]),
      (str ''job'', PDict [
        (str ''location'', PStr (str ''Jobs/<name>.fly'')),
        (str ''description'', PStr (str ''Internal self-management task run on a dedicated runner.'')),
        (str ''required_attributes'', PDict [
          (str ''schedule'', PDict [
            (str ''type'', PStr (str ''cron'')),
            (str ''description'', PStr (str ''Cron schedule for the job''))]),
          (str ''script'', PDict [
            (str ''type'', PStr (str ''string'')),
            (str ''description'', PStr (str ''Shell script or command to execute''))]),
          (str ''cloud_provider'', PDict [
            (str ''type'', PStr (str ''string'')),
            (str ''values'', PList [
              PStr (str ''yandex''),
              PStr (str ''aws'')])]),
          (str ''region'', PDict [
            (str ''type'', PStr (str ''string''))])]),
        (str ''optional_attributes'', PDict [
          (str ''runner_image'', PDict [
            (str ''type'', PStr (str ''string''))]),
          (str ''cpu'', PDict [
            (str ''type'', PStr (str ''cpu''))]),
          (str ''memory'', PDict [
            (str ''type'', PStr (str ''memory''))]),
          (str ''timeout'', PDict [
            (str ''type'', PStr (str ''duration'')),
            (str ''default'', PStr (str ''1h''))]),
          (str ''environment'', PDict [
            (str ''type'', PStr (str ''list(string)''))]),
          (str ''secrets'', PDict [
            (str ''type'', PStr (str ''list(secret_uri)'')),
            (str ''description'', PStr (str ''Secrets to inject as env vars''))])])]),
      (str ''uglyfox'', PDict [
        (str ''location'', PStr (str ''UF/config.fly'')),
        (str ''description'', PStr (str ''UglyFox lifecycle and pruning configuration.'')),
        (str ''nested_blocks'', PList [
          PStr (str ''pruning''),
          PStr (str ''apex_pool''),
          PStr (str ''nadir_pool''),
          PStr (str ''runners_condition'')])]),
      (str ''mothergoose'', PDict [
        (str ''location'', PStr (str ''MG/config.fly'')),
        (str ''description'', PStr (str ''MotherGoose infrastructure configuration: API Gateway, queues, triggers, containers.'')),
        (str ''nested_blocks'', PList [
          PStr (str ''api_gateway''),
          PStr (str ''message_queue''),
          PStr (str ''cloud_trigger''),
          PStr (str ''container'')])])]),
    (str ''validation_error_format'', PDict [
      (str ''description'', PStr (str ''Validation errors are returned as JSON when using --format json flag.'')),
      (str ''schema'', PDict [
        (str ''file'', PStr (str ''string '' @ [8212] @ str '' path to the .fly file'')),
        (str ''errors'', PList [
          PDict [
            (str ''line'', PStr (str ''number'')),
            (str ''column'', PStr (str ''number'')),
            (str ''severity'', PStr (str ''error | warning'')),
            (str ''code'', PStr (str ''string '' @ [8212] @ str '' error code (e.g. MISSING_REQUIRED, INVALID_TYPE, INVALID_SECRET_URI)'')),
            (str ''message'', PStr (str ''string '' @ [8212] @ str '' human-readable description'')),
            (str ''attribute'', PStr (str ''string '' @ [8212] @ str '' attribute name that failed''))]])])])]\<close>

definition FLY_EXAMPLES :: pyval where
  \<open>FLY_EXAMPLES = PDict [
    (str ''egg_yandex_serverless'', PStr (str ''\<newline># Eggs/my-service/config.fly\<newline>egg "my-service" {\<newline>  gitlab_server         = "https://gitlab.com"\<newline>  project_id            = 12345\<newline>  gitlab_token_secret   = "yc-lockbox://abc123def456/runner-token"\<newline>  gitlab_webhook_secret = "yc-lockbox://abc123def456/webhook-secret"\<newline>  git_repo_url_secret   = "yc-lockbox://abc123def456/repo-url"\<newline>\<newline>  cloud_provider = "yandex"\<newline>  region         = "ru-central1"\<newline>  runner_type    = "serverless"\<newline>\<newline>  tags   = ["docker", "linux", "yandex"]\<newline>  cpu    = 1\<newline>  memory = "512MB"\<newline>  max_concurrent_jobs = 2\<newline>}\<newline>'')),
    (str ''eggsbucket_aws'', PStr (str ''\<newline># Eggs/platform-team/config.fly\<newline>eggsbucket "platform-team" {\<newline>  gitlab_server         = "https://gitlab.example.com"\<newline>  group_id              = 999\<newline>  gitlab_token_secret   = "aws-sm://prod/platform-runner-token/value"\<newline>  gitlab_webhook_secret = "aws-sm://prod/platform-webhook-secret/value"\<newline>\<newline>  cloud_provider = "aws"\<newline>  region         = "us-east-1"\<newline>  runner_type    = "apex"\<newline>\<newline>  tags       = ["docker", "linux", "aws"]\<newline>  cpu        = 2\<newline>  memory     = "1GB"\<newline>  project_ids = [101, 102, 103]\<newline>}\<newline>'')),
    (str ''job_secret_rotation'', PStr (str ''\<newline># Jobs/rotate-secrets.fly\<newline>job "rotate-secrets" {\<newline>  schedule       = "0 2 * * 0"  # Every Sunday at 2am\<newline>  cloud_provider = "yandex"\<newline>  region         = "ru-central1"\<newline>  runner_image   = "registry.example.com/tools/secret-rotator:latest"\<newline>  cpu            = 0.5\<newline>  memory         = "256MB"\<newline>  timeout        = "30m"\<newline>\<newline>  script = <<-EOT\<newline>    #!/bin/bash\<newline>    set -euo pipefail\<newline>    python3 /app/rotate.py --all\<newline>  EOT\<newline>\<newline>  secrets = [\<newline>    "yc-lockbox://abc123/rotation-key",\<newline>  ]\<newline>}\<newline>'')),
    (str ''uglyfox_config'', PStr (str ''\<newline># UF/config.fly\<newline>uglyfox {\<newline>  pruning {\<newline>    max_age_hours          = 72\<newline>    max_failures           = 5\<newline>    idle_timeout_minutes   = 30\<newline>    check_interval_seconds = 60\<newline>  }\<newline>\<newline>  apex_pool {\<newline>    min_size           = 1\<newline>    max_size           = 10\<newline>    scale_up_threshold = 5\<newline>  }\<newline>\<newline>  nadir_pool {\<newline>    min_size            = 0\<newline>    max_size            = 5\<newline>    warmup_time_seconds = 30\<newline>  }\<newline>\<newline>  runners_condition {\<newline>    egg_name     = "my-service"\<newline>    max_failures = 3\<newline>    max_age_hours = 24\<newline>  }\<newline>}\<newline>'')),
    (str ''mothergoose_config'', PStr (str ''\<newline># MG/config.fly\<newline>mothergoose {\<newline>  api_gateway {\<newline>    cloud_provider = "yandex"\<newline>    region         = "ru-central1"\<newline>    domain         = "mg.example.com"\<newline>    tls             = true\<newline>  }\<newline>\<newline>  message_queue {\<newline>    cloud_provider = "yandex"\<newline>    queue_name     = "polar-gosling-tasks"\<newline>  }\<newline>\<newline>  cloud_trigger {\<newline>    type     = "timer"\<newline>    schedule = "*/5 * * * *"  # Every 5 minutes\<newline>    target   = "/internal/sync-git"\<newline>  }\<newline>\<newline>  container {\<newline>    image  = "registry.example.com/polar-gosling/mothergoose:latest"\<newline>    cpu    = 1\<newline>    memory = "512MB"\<newline>    min_instances = 1\<newline>    max_instances = 5\<newline>  }\<newline>}\<newline>''))]\<close>

subsection \<open>The data of \<^verbatim>\<open>data/compute_module.py\<close>\<close>

definition COMPUTE_MODULE_VARIABLES :: pyval where
  \<open>COMPUTE_MODULE_VARIABLES = PDict [
    (str ''aws'', PList [
      PDict [
        (str ''name'', PStr (str ''create_aws_resources'')),
        (str ''type'', PStr (str ''bool'')),
        (str ''default'', PBool False),
        (str ''description'', PStr (str ''Enable AWS resource creation''))],
      PDict [
        (str ''name'', PStr (str ''aws_runner_type'')),
        (str ''type'', PStr (str ''string'')),
        (str ''values'', PList [
          PStr (str ''ec2''),
          PStr (str ''ecs'')]),
        (str ''description'', PStr (str ''AWS runner deployment type: EC2 VM or ECS Fargate''))],
      PDict [
        (str ''name'', PStr (str ''aws_region'')),
        (str ''type'', PStr (str ''string'')),
        (str ''description'', PStr (str ''AWS region (e.g. us-east-1)''))],
      PDict [
        (str ''name'', PStr (str ''aws_instance_type'')),
        (str ''type'', PStr (str ''string'')),
        (str ''default'', PStr (str ''t3.medium'')),
        (str ''description'', PStr (str ''EC2 instance type (ec2 runner only)''))],
      PDict [
        (str ''name'', PStr (str ''aws_ami_ssm_param'')),
        (str ''type'', PStr (str ''string'')),
        (str ''description'', PStr (str ''SSM parameter path for the runner AMI ID''))],
      PDict [
        (str ''name'', PStr (str ''aws_subnet_id'')),
        (str ''type'', PStr (str ''string'')),
        (str ''description'', PStr (str ''VPC subnet ID for EC2/ECS placement''))],
      PDict [
        (str ''name'', PStr (str ''aws_security_group_ids'')),
        (str ''type'', PStr (str ''list(string)'')),
        (str ''description'', PStr (str ''Security group IDs to attach''))],
      PDict [
        (str ''name'', PStr (str ''aws_iam_instance_profile'')),
        (str ''type'', PStr (str ''string'')),
        (str ''description'', PStr (str ''IAM instance profile ARN for EC2''))],
      PDict [
        (str ''name'', PStr (str ''aws_ecs_cluster_arn'')),
        (str ''type'', PStr (str ''string'')),
        (str ''description'', PStr (str ''ECS cluster ARN (ecs runner only)''))],
      PDict [
        (str ''name'', PStr (str ''aws_ecs_task_cpu'')),
        (str ''type'', PStr (str ''number'')),
        (str ''default'', PInt 512),
        (str ''description'', PStr (str ''ECS task CPU units (256/512/1024/2048/4096)''))],
      PDict [
        (str ''name'', PStr (str ''aws_ecs_task_memory'')),
        (str ''type'', PStr (str ''number'')),
        (str ''default'', PInt 1024),
        (str ''description'', PStr (str ''ECS task memory in MiB''))],
      PDict [
        (str ''name'', PStr (str ''aws_container_image'')),
        (str ''type'', PStr (str ''string'')),
        (str ''description'', PStr (str ''Container image URI for ECS runner''))],
      PDict [
        (str ''name'', PStr (str ''aws_runner_name'')),
        (str ''type'', PStr (str ''string'')),
        (str ''description'', PStr (str ''GitLab runner name tag''))],
      PDict [
        (str ''name'', PStr (str ''aws_tags'')),
        (str ''type'', PStr (str ''map(string)'')),
        (str ''default'', PDict []),
        (str ''description'', PStr (str ''Additional AWS resource tags''))],
      PDict [
        (str ''name'', PStr (str ''aws_key_pair_name'')),
        (str ''type'', PStr (str ''string'')),
        (str ''default'', PStr (str '''')),
        (str ''description'', PStr (str ''EC2 key pair name for SSH access''))],
      PDict [
        (str ''name'', PStr (str ''aws_root_volume_size'')),
        (str ''type'', PStr (str ''number'')),
        (str ''default'', PInt 20),
        (str ''description'', PStr (str ''EC2 root EBS volume size in GB''))]]),
    (str ''yandex_cloud'', PList [
      PDict [
        (str ''name'', PStr (str ''create_yc_resources'')),
        (str ''type'', PStr (str ''bool'')),
        (str ''default'', PBool False),
        (str ''description'', PStr (str ''Enable Yandex Cloud resource creation''))],
      PDict [
        (str ''name'', PStr (str ''yc_runner_type'')),
        (str ''type'', PStr (str ''string'')),
        (str ''values'', PList [
          PStr (str ''vm''),
          PStr (str ''serverless'')]),
        (str ''description'', PStr (str ''YC runner type: Compute VM or Serverless Container''))],
      PDict [
        (str ''name'', PStr (str ''yc_folder_id'')),
        (str ''type'', PStr (str ''string'')),
        (str ''description'', PStr (str ''Yandex Cloud folder ID''))],
      PDict [
        (str ''name'', PStr (str ''yc_zone'')),
        (str ''type'', PStr (str ''string'')),
        (str ''default'', PStr (str ''ru-central1-a'')),
        (str ''description'', PStr (str ''Availability zone''))],
      PDict [
        (str ''name'', PStr (str ''yc_subnet_id'')),
        (str ''type'', PStr (str ''string'')),
        (str ''description'', PStr (str ''VPC subnet ID''))],
      PDict [
        (str ''name'', PStr (str ''yc_platform_id'')),
        (str ''type'', PStr (str ''string'')),
        (str ''default'', PStr (str ''standard-v3'')),
        (str ''description'', PStr (str ''VM platform (standard-v1/v2/v3)''))],
      PDict [
        (str ''name'', PStr (str ''yc_cores'')),
        (str ''type'', PStr (str ''number'')),
        (str ''default'', PInt 2),
        (str ''description'', PStr (str ''Number of vCPUs for VM''))],
      PDict [
        (str ''name'', PStr (str ''yc_memory'')),
        (str ''type'', PStr (str ''number'')),
        (str ''default'', PInt 2),
        (str ''description'', PStr (str ''RAM in GB for VM''))],
      PDict [
        (str ''name'', PStr (str ''yc_core_fraction'')),
        (str ''type'', PStr (str ''number'')),
        (str ''default'', PInt 100),
        (str ''description'', PStr (str ''CPU core fraction % (20/50/100)''))],
      PDict [
        (str ''name'', PStr (str ''yc_disk_size'')),
        (str ''type'', PStr (str ''number'')),
        (str ''default'', PInt 20),
        (str ''description'', PStr (str ''Boot disk size in GB''))],
      PDict [
        (str ''name'', PStr (str ''yc_disk_type'')),
        (str ''type'', PStr (str ''string'')),
        (str ''default'', PStr (str ''network-ssd'')),
        (str ''description'', PStr (str ''Disk type (network-hdd/network-ssd)''))],
      PDict [
        (str ''name'', PStr (str ''yc_image_family'')),
        (str ''type'', PStr (str ''string'')),
        (str ''default'', PStr (str ''ubuntu-2204-lts'')),
        (str ''description'', PStr (str ''OS image family''))],
      PDict [
        (str ''name'', PStr (str ''yc_container_image'')),
        (str ''type'', PStr (str ''string'')),
        (str ''description'', PStr (str ''Container image for Serverless Container''))],
      PDict [
        (str ''name'', PStr (str ''yc_serverless_memory'')),
        (str ''type'', PStr (str ''number'')),
        (str ''default'', PInt 512),
        (str ''description'', PStr (str ''Serverless Container memory in MB''))],
      PDict [
        (str ''name'', PStr (str ''yc_serverless_cores'')),
        (str ''type'', PStr (str ''number'')),
        (str ''default'', PInt 1),
        (str ''description'', PStr (str ''Serverless Container vCPU count''))],
      PDict [
        (str ''name'', PStr (str ''yc_service_account_id'')),
        (str ''type'', PStr (str ''string'')),
        (str ''description'', PStr (str ''Service account ID for the runner''))],
      PDict [
        (str ''name'', PStr (str ''yc_runner_name'')),
        (str ''type'', PStr (str ''string'')),
        (str ''description'', PStr (str ''Resource name prefix''))],
      PDict [
        (str ''name'', PStr (str ''yc_labels'')),
        (str ''type'', PStr (str ''map(string)'')),
        (str ''default'', PDict []),
        (str ''description'', PStr (str ''Yandex Cloud resource labels''))],
      PDict [
        (str ''name'', PStr (str ''yc_ssh_public_key'')),
        (str ''type'', PStr (str ''string'')),
        (str ''default'', PStr (str '''')),
        (str ''description'', PStr (str ''SSH public key for VM access''))],
      PDict [
        (str ''name'', PStr (str ''yc_user_data'')),
        (str ''type'', PStr (str ''string'')),
        (str ''default'', PStr (str '''')),
        (str ''description'', PStr (str ''Cloud-init user data script''))]]),
    (str ''common'', PList [
      PDict [
        (str ''name'', PStr (str ''gitlab_runner_token'')),
        (str ''type'', PStr (str ''string'')),
        (str ''sensitive'', PBool True),
        (str ''description'', PStr (str ''GitLab runner registration token''))],
      PDict [
        (str ''name'', PStr (str ''gitlab_server_url'')),
        (str ''type'', PStr (str ''string'')),
        (str ''default'', PStr (str ''https://gitlab.com'')),
        (str ''description'', PStr (str ''GitLab instance URL''))],
      PDict [
        (str ''name'', PStr (str ''runner_tags'')),
        (str ''type'', PStr (str ''list(string)'')),
        (str ''default'', PList []),
        (str ''description'', PStr (str ''GitLab runner tags''))],
      PDict [
        (str ''name'', PStr (str ''runner_concurrent'')),
        (str ''type'', PStr (str ''number'')),
        (str ''default'', PInt 1),
        (str ''description'', PStr (str ''Max concurrent jobs per runner''))],
      PDict [
        (str ''name'', PStr (str ''random_suffix_length'')),
        (str ''type'', PStr (str ''number'')),
        (str ''default'', PInt 6),
        (str ''description'', PStr (str ''Length of random suffix appended to resource names''))]])]\<close>

definition COMPUTE_MODULE_OUTPUTS :: pyval where
  \<open>COMPUTE_MODULE_OUTPUTS = PList [
    PDict [
      (str ''name'', PStr (str ''hostname'')),
      (str ''type'', PStr (str ''string'')),
      (str ''description'', PStr (str ''Public DNS hostname of the deployed runner. For EC2: public DNS name. For YC VM: FQDN. For serverless: container endpoint URL.'')),
      (str ''sensitive'', PBool False)],
    PDict [
      (str ''name'', PStr (str ''public_ip'')),
      (str ''type'', PStr (str ''string'')),
      (str ''description'', PStr (str ''Public IP address of the runner. Empty string for serverless runners that have no static IP.'')),
      (str ''sensitive'', PBool False)],
    PDict [
      (str ''name'', PStr (str ''private_ip'')),
      (str ''type'', PStr (str ''string'')),
      (str ''description'', PStr (str ''Private IP address within the VPC/subnet. Available for both VM and ECS task runners.'')),
      (str ''sensitive'', PBool False)],
    PDict [
      (str ''name'', PStr (str ''id'')),
      (str ''type'', PStr (str ''string'')),
      (str ''description'', PStr (str ''Cloud resource ID. EC2: instance ID (i-xxx). ECS: task ARN. YC VM: instance ID. YC Serverless: container ID.'')),
      (str ''sensitive'', PBool False)]]\<close>

definition COMPUTE_MODULE_PROVIDERS :: pyval where
  \<open>COMPUTE_MODULE_PROVIDERS = PDict [
    (str ''required_providers'', PDict [
      (str ''yandex'', PDict [
        (str ''source'', PStr (str ''yandex-cloud/yandex'')),
        (str ''version'', PStr (str ''>= 0.170.0'')),
        (str ''description'', PStr (str ''Yandex Cloud provider for VM and Serverless Container resources''))]),
      (str ''aws'', PDict [
        (str ''source'', PStr (str ''hashicorp/aws'')),
        (str ''version'', PStr (str ''>= 4.66'')),
        (str ''description'', PStr (str ''AWS provider for EC2 and ECS resources''))]),
      (str ''random'', PDict [
        (str ''source'', PStr (str ''hashicorp/random'')),
        (str ''version'', PStr (str ''>= 3.4.3'')),
        (str ''description'', PStr (str ''Used to generate unique resource name suffixes''))])]),
    (str ''terraform_required_version'', PStr (str ''>= 1.3.5'')),
    (str ''opentofu_compatible'', PBool True),
    (str ''notes'', PList [
      PStr (str ''Both aws and yandex providers are always declared but only activated when create_aws_resources or create_yc_resources is true.''),
      PStr (str ''The random provider generates a suffix appended to all resource names to avoid collisions.''),
      PStr (str ''Provider credentials are expected via standard env vars: AWS_ACCESS_KEY_ID/AWS_SECRET_ACCESS_KEY or YC_TOKEN/YC_SERVICE_ACCOUNT_KEY_FILE.'')]),
    (str ''test_suites'', PList [
      PStr (str ''tests/tests_aws_ecs_base/''),
      PStr (str ''tests/tests_aws_vm_base/''),
      PStr (str ''tests/tests_yc_serverless_base/''),
      PStr (str ''tests/tests_yc_vm_base/'')])]\<close>

section \<open>\<^verbatim>\<open>json.dumps(data, indent=2)\<close>\<close>

text \<open>
  The standard library's encoder with the arguments \<^verbatim>\<open>call_tool\<close> gives it:
  \<^verbatim>\<open>ensure_ascii=True\<close>, \<^verbatim>\<open>indent=2\<close>, hence the separators \<^verbatim>\<open>","\<close> (followed by the
  newline and the indentation) and \<^verbatim>\<open>": "\<close>, and \<^verbatim>\<open>sort_keys=False\<close>: keys come in
  the dictionary's own order.

  \<open>u_escape n\<close> is a backslash, the letter u and the four lowercase hexadecimal digits
  of \<open>n < 65536\<close>. \<open>replace\<close> is the function of that name in
  \<^verbatim>\<open>py_encode_basestring_ascii\<close>; it is applied to the characters \<^verbatim>\<open>ESCAPE_ASCII\<close>
  matches (\<open>escape_ascii\<close>): the backslash, the double quote and everything outside the
  range from the space to the tilde. For a code point beyond the basic plane,
  \<^verbatim>\<open>0xd800 | ((n >> 10) & 0x3ff)\<close> and \<^verbatim>\<open>0xdc00 | (n & 0x3ff)\<close> are written with
  \<open>div\<close>, \<open>mod\<close> and \<open>+\<close> (the operands of each \<^verbatim>\<open>|\<close> share no bit).
\<close>

definition hexdigit :: "nat \<Rightarrow> nat" where
  "hexdigit d = (if d < 10 then 48 + d else 87 + d)"

definition u_escape :: "nat \<Rightarrow> pystr" where
  "u_escape n =
     [92, 117, hexdigit (n div 4096 mod 16), hexdigit (n div 256 mod 16),
      hexdigit (n div 16 mod 16), hexdigit (n mod 16)]"

definition replace :: "nat \<Rightarrow> pystr" where
  "replace c =
     (if c = 92 then [92, 92]
      else if c = 34 then [92, 34]
      else if c = 8 then [92, 98]
      else if c = 12 then [92, 102]
      else if c = 10 then [92, 110]
      else if c = 13 then [92, 114]
      else if c = 9 then [92, 116]
      else if c < 65536 then u_escape c
      else (let n = c - 65536
            in u_escape (55296 + n div 1024 mod 1024) @ u_escape (56320 + n mod 1024)))"

definition escape_ascii :: "nat \<Rightarrow> bool" where
  "escape_ascii c = (c = 92 \<or> c = 34 \<or> \<not> (32 \<le> c \<and> c \<le> 126))"

definition py_encode_basestring_ascii :: "pystr \<Rightarrow> pystr" where
  "py_encode_basestring_ascii s =
     34 # concat (map (\<lambda>c. if escape_ascii c then replace c else [c]) s) @ [34]"

text \<open>
  \<^verbatim>\<open>int.__repr__\<close>: the decimal digits, with a minus sign for a negative number.

  The interpreter refuses to convert an integer of more than 4300 digits
  (\<^verbatim>\<open>ValueError\<close>) and gives up on values nested deeper than its recursion limit
  (\<^verbatim>\<open>RecursionError\<close>); the model is total and agrees with the encoder below these
  limits. The claims apply it to the values of the data modules, whose largest integer
  is 1024 and whose nesting is at most six deep.
\<close>

fun nat_repr :: "nat \<Rightarrow> pystr" where
  "nat_repr n = (if n < 10 then [48 + n] else nat_repr (n div 10) @ [48 + n mod 10])"

declare nat_repr.simps [simp del]

definition int_repr :: "int \<Rightarrow> pystr" where
  "int_repr i = (if i < 0 then 45 # nat_repr (nat (- i)) else nat_repr (nat i))"

text \<open>
  \<^verbatim>\<open>_make_iterencode\<close>: \<open>iterencode\<close> is \<^verbatim>\<open>_iterencode\<close> with \<^verbatim>\<open>_iterencode_list\<close> and
  \<^verbatim>\<open>_iterencode_dict\<close>; \<open>iterencode_list\<close> and \<open>iterencode_dict\<close> are the bodies of their
  \<^verbatim>\<open>for\<close> loops, at the inner indentation level.
\<close>

definition newline_indent :: "nat \<Rightarrow> pystr" where
  "newline_indent lvl = 10 # replicate (2 * lvl) 32"

fun iterencode :: "pyval \<Rightarrow> nat \<Rightarrow> pystr"
  and iterencode_list :: "pyval list \<Rightarrow> nat \<Rightarrow> pystr"
  and iterencode_dict :: "(pystr \<times> pyval) list \<Rightarrow> nat \<Rightarrow> pystr"
where
  "iterencode PNone lvl = str ''null''"
| "iterencode (PBool b) lvl = (if b then str ''true'' else str ''false'')"
| "iterencode (PInt i) lvl = int_repr i"
| "iterencode (PStr s) lvl = py_encode_basestring_ascii s"
| "iterencode (PList []) lvl = str ''[]''"
| "iterencode (PList (x # xs)) lvl =
     str ''['' @ newline_indent (lvl + 1) @ iterencode_list (x # xs) (lvl + 1)
       @ newline_indent lvl @ str '']''"
| "iterencode (PDict []) lvl = str ''{}''"
| "iterencode (PDict (kv # kvs)) lvl =
     str ''{'' @ newline_indent (lvl + 1) @ iterencode_dict (kv # kvs) (lvl + 1)
       @ newline_indent lvl @ str ''}''"
| "iterencode_list [] lvl = []"
| "iterencode_list (x # xs) lvl =
     iterencode x lvl
       @ (if xs = [] then [] else str '','' @ newline_indent lvl @ iterencode_list xs lvl)"
| "iterencode_dict [] lvl = []"
| "iterencode_dict ((k, v) # kvs) lvl =
     py_encode_basestring_ascii k @ str '': '' @ iterencode v lvl
       @ (if kvs = [] then [] else str '','' @ newline_indent lvl @ iterencode_dict kvs lvl)"

definition json_dumps :: "pyval \<Rightarrow> pystr" where
  "json_dumps data = iterencode data 0"

section \<open>\<^verbatim>\<open>server.py\<close>\<close>

record Tool =
  name :: pystr
  description :: pystr
  inputSchema :: pyval

record TextContent =
  type :: pystr
  text' :: pystr

text \<open>
  The module \<^verbatim>\<open>data.cross_cutting\<close> that \<^verbatim>\<open>server.py\<close> imports three names from is not
  among the sources. Its three constants are parameters of the model.
\<close>

record cross_cutting =
  SECRET_URI_SCHEMES :: pyval
  DATABASE_SCHEMA :: pyval
  ARCHITECTURE_OVERVIEW :: pyval

text \<open>The schema every entry of \<^verbatim>\<open>TOOLS\<close> is built with.\<close>

definition empty_object_schema :: pyval where
  "empty_object_schema =
     PDict [(str ''type'', PStr (str ''object'')),
            (str ''properties'', PDict []),
            (str ''required'', PList [])]"

definition TOOLS :: "Tool list" where
  \<open>TOOLS = [
    \<lparr>name = str ''get_mothergoose_api_endpoints'',
     description = str ''List all MotherGoose REST API endpoints with methods, paths, descriptions, and auth requirements.'',
     inputSchema = PDict [ (str ''type'', PStr (str ''object'')), (str ''properties'', PDict []), (str ''required'', PList [])]\<rparr>,
    \<lparr>name = str ''get_mothergoose_celery_tasks'',
     description = str ''List all MotherGoose Celery tasks with names, queues, priorities, and descriptions.'',
     inputSchema = PDict [ (str ''type'', PStr (str ''object'')), (str ''properties'', PDict []), (str ''required'', PList [])]\<rparr>,
    \<lparr>name = str ''get_mothergoose_models'',
     description = str ''Get Pydantic model schemas for Runner, EggConfig, SyncHistory, DeploymentPlan, AuditLog.'',
     inputSchema = PDict [ (str ''type'', PStr (str ''object'')), (str ''properties'', PDict []), (str ''required'', PList [])]\<rparr>,
    \<lparr>name = str ''get_mothergoose_services'',
     description = str ''List all MotherGoose service classes with their responsibilities and key methods.'',
     inputSchema = PDict [ (str ''type'', PStr (str ''object'')), (str ''properties'', PDict []), (str ''required'', PList [])]\<rparr>,
    \<lparr>name = str ''get_mothergoose_env_vars'',
     description = str ''Get all MOTHERGOOSE_* environment variable definitions with types and descriptions.'',
     inputSchema = PDict [ (str ''type'', PStr (str ''object'')), (str ''properties'', PDict []), (str ''required'', PList [])]\<rparr>,
    \<lparr>name = str ''get_uglyfox_celery_tasks'',
     description = str ''List all UglyFox Celery tasks: health checks, pruning, lifecycle management.'',
     inputSchema = PDict [ (str ''type'', PStr (str ''object'')), (str ''properties'', PDict []), (str ''required'', PList [])]\<rparr>,
    \<lparr>name = str ''get_uglyfox_config_schema'',
     description = str ''Get the UF/config.fly schema: pruning policies, runner conditions, Apex/Nadir pool rules.'',
     inputSchema = PDict [ (str ''type'', PStr (str ''object'')), (str ''properties'', PDict []), (str ''required'', PList [])]\<rparr>,
    \<lparr>name = str ''get_uglyfox_env_vars'',
     description = str ''Get all UGLYFOX_* environment variable definitions with types and descriptions.'',
     inputSchema = PDict [ (str ''type'', PStr (str ''object'')), (str ''properties'', PDict []), (str ''required'', PList [])]\<rparr>,
    \<lparr>name = str ''get_gosling_commands'',
     description = str ''Get all Gosling CLI commands with flags, usage patterns, and examples.'',
     inputSchema = PDict [ (str ''type'', PStr (str ''object'')), (str ''properties'', PDict []), (str ''required'', PList [])]\<rparr>,
    \<lparr>name = str ''get_fly_language_reference'',
     description = str ''Get the .fly language reference: block types, attributes, type system, and validation rules.'',
     inputSchema = PDict [ (str ''type'', PStr (str ''object'')), (str ''properties'', PDict []), (str ''required'', PList [])]\<rparr>,
    \<lparr>name = str ''get_fly_examples'',
     description = str ''Get example .fly files for egg, eggsbucket, job, uglyfox, and mothergoose blocks.'',
     inputSchema = PDict [ (str ''type'', PStr (str ''object'')), (str ''properties'', PDict []), (str ''required'', PList [])]\<rparr>,
    \<lparr>name = str ''get_compute_module_variables'',
     description = str ''Get all Terraform/OpenTofu input variables for the Compute Module (AWS + Yandex Cloud).'',
     inputSchema = PDict [ (str ''type'', PStr (str ''object'')), (str ''properties'', PDict []), (str ''required'', PList [])]\<rparr>,
    \<lparr>name = str ''get_compute_module_outputs'',
     description = str ''Get Compute Module output values: hostname, public_ip, private_ip, id.'',
     inputSchema = PDict [ (str ''type'', PStr (str ''object'')), (str ''properties'', PDict []), (str ''required'', PList [])]\<rparr>,
    \<lparr>name = str ''get_compute_module_providers'',
     description = str ''Get provider version constraints for the Compute Module (yandex, aws, random).'',
     inputSchema = PDict [ (str ''type'', PStr (str ''object'')), (str ''properties'', PDict []), (str ''required'', PList [])]\<rparr>,
    \<lparr>name = str ''get_secret_uri_schemes'',
     description = str ''Get secret URI scheme reference: yc-lockbox://, aws-sm://, vault:// formats and usage.'',
     inputSchema = PDict [ (str ''type'', PStr (str ''object'')), (str ''properties'', PDict []), (str ''required'', PList [])]\<rparr>,
    \<lparr>name = str ''get_database_schema'',
     description = str ''Get all YDB/DynamoDB table schemas: runners, egg_configs, sync_history, deployment_plans, audit_logs, tofu_versions, gosling_version.'',
     inputSchema = PDict [ (str ''type'', PStr (str ''object'')), (str ''properties'', PDict []), (str ''required'', PList [])]\<rparr>,
    \<lparr>name = str ''get_architecture_overview'',
     description = str ''Get a high-level architecture overview: system flow, services, deployment mechanisms, cloud targets.'',
     inputSchema = PDict [ (str ''type'', PStr (str ''object'')), (str ''properties'', PDict []), (str ''required'', PList [])]\<rparr>]\<close>

definition DISPATCH :: "cross_cutting \<Rightarrow> (pystr \<rightharpoonup> pyval)" where
  "DISPATCH cc = [
     str ''get_mothergoose_api_endpoints'' \<mapsto> MOTHERGOOSE_API_ENDPOINTS,
     str ''get_mothergoose_celery_tasks'' \<mapsto> MOTHERGOOSE_CELERY_TASKS,
     str ''get_mothergoose_models'' \<mapsto> MOTHERGOOSE_MODELS,
     str ''get_mothergoose_services'' \<mapsto> MOTHERGOOSE_SERVICES,
     str ''get_mothergoose_env_vars'' \<mapsto> MOTHERGOOSE_ENV_VARS,
     str ''get_uglyfox_celery_tasks'' \<mapsto> UGLYFOX_CELERY_TASKS,
     str ''get_uglyfox_config_schema'' \<mapsto> UGLYFOX_CONFIG_SCHEMA,
     str ''get_uglyfox_env_vars'' \<mapsto> UGLYFOX_ENV_VARS,
     str ''get_gosling_commands'' \<mapsto> GOSLING_COMMANDS,
     str ''get_fly_language_reference'' \<mapsto> FLY_LANGUAGE_REFERENCE,
     str ''get_fly_examples'' \<mapsto> FLY_EXAMPLES,
     str ''get_compute_module_variables'' \<mapsto> COMPUTE_MODULE_VARIABLES,
     str ''get_compute_module_outputs'' \<mapsto> COMPUTE_MODULE_OUTPUTS,
     str ''get_compute_module_providers'' \<mapsto> COMPUTE_MODULE_PROVIDERS,
     str ''get_secret_uri_schemes'' \<mapsto> SECRET_URI_SCHEMES cc,
     str ''get_database_schema'' \<mapsto> DATABASE_SCHEMA cc,
     str ''get_architecture_overview'' \<mapsto> ARCHITECTURE_OVERVIEW cc]"


text \<open>
  \<^verbatim>\<open>dict.get(key)\<close> with no default: the bound value, or \<^verbatim>\<open>None\<close> when the key is absent.
\<close>

definition dict_get :: "(pystr \<rightharpoonup> pyval) \<Rightarrow> pystr \<Rightarrow> pyval" where
  "dict_get d k = (case d k of None \<Rightarrow> PNone | Some v \<Rightarrow> v)"

text \<open>
  The handlers read the module's globals \<^verbatim>\<open>TOOLS\<close> and \<^verbatim>\<open>_DISPATCH\<close>. The globals are
  passed to each handler and returned by it, so that what a call leaves behind for the
  next one is part of its result. The parameter \<^verbatim>\<open>name\<close> of \<^verbatim>\<open>call_tool\<close> is \<open>n\<close> here
  (\<open>name\<close> is the field of \<open>Tool\<close>).
\<close>

record module_globals =
  g_TOOLS :: "Tool list"
  g_DISPATCH :: "pystr \<rightharpoonup> pyval"

definition server_globals :: "cross_cutting \<Rightarrow> module_globals" where
  "server_globals cc = \<lparr>g_TOOLS = TOOLS, g_DISPATCH = DISPATCH cc\<rparr>"

definition list_tools :: "module_globals \<Rightarrow> Tool list \<times> module_globals" where
  "list_tools g = (g_TOOLS g, g)"

definition call_tool ::
  "module_globals \<Rightarrow> pystr \<Rightarrow> (pystr \<rightharpoonup> pyval) \<Rightarrow> TextContent list \<times> module_globals"
where
  "call_tool g n arguments =
     (let data = dict_get (g_DISPATCH g) n
      in if data = PNone
         then ([\<lparr>type = str ''text'', text' = str ''Unknown tool: '' @ n\<rparr>], g)
         else ([\<lparr>type = str ''text'', text' = json_dumps data\<rparr>], g))"

text \<open>The globals after a sequence of \<^verbatim>\<open>call_tool\<close> invocations, each given as (name, arguments).\<close>

fun after_calls :: "module_globals \<Rightarrow> (pystr \<times> (pystr \<rightharpoonup> pyval)) list \<Rightarrow> module_globals" where
  "after_calls g [] = g"
| "after_calls g ((n, a) # calls) = after_calls (snd (call_tool g n a)) calls"

section \<open>Loading the module: the \<^verbatim>\<open>import\<close> statements\<close>

text \<open>
  \<^verbatim>\<open>from m import a, b\<close> raises \<^verbatim>\<open>ModuleNotFoundError\<close> when no module \<open>m\<close> is found and
  \<^verbatim>\<open>ImportError\<close> when \<open>m\<close> does not bind one of the names. A module is given by the names
  its top level binds.
\<close>

datatype py_error =
    ModuleNotFoundError string
  | ImportError string string

type_synonym modules = "string \<rightharpoonup> string list"

definition import_from :: "modules \<Rightarrow> string \<Rightarrow> string list \<Rightarrow> py_error + unit" where
  "import_from mods m names =
     (case mods m of
        None \<Rightarrow> Inl (ModuleNotFoundError m)
      | Some bound \<Rightarrow>
          (case filter (\<lambda>n. n \<notin> set bound) names of
             [] \<Rightarrow> Inr ()
           | n # _ \<Rightarrow> Inl (ImportError n m)))"

fun run_imports :: "modules \<Rightarrow> (string \<times> string list) list \<Rightarrow> py_error + unit" where
  "run_imports mods [] = Inr ()"
| "run_imports mods ((m, names) # rest) =
     (case import_from mods m names of
        Inl e \<Rightarrow> Inl e
      | Inr _ \<Rightarrow> run_imports mods rest)"

text \<open>
  The modules under \<^verbatim>\<open>src/MCP/data/\<close>, each with the names it binds, and the modules of
  the standard library and of the \<^verbatim>\<open>mcp\<close> package that \<^verbatim>\<open>server.py\<close> imports, taken as
  installed.
\<close>

definition data_modules :: "(string \<times> string list) list" where
  "data_modules =
     [(''data.mothergoose'',
         [''Any'', ''MOTHERGOOSE_API_ENDPOINTS'', ''MOTHERGOOSE_CELERY_TASKS'',
          ''MOTHERGOOSE_MODELS'', ''MOTHERGOOSE_SERVICES'', ''MOTHERGOOSE_ENV_VARS'']),
      (''data.compute_module'',
         [''Any'', ''COMPUTE_MODULE_VARIABLES'', ''COMPUTE_MODULE_OUTPUTS'',
          ''COMPUTE_MODULE_PROVIDERS'']),
      (''data.gosling'',
         [''Any'', ''GOSLING_COMMANDS'', ''FLY_LANGUAGE_REFERENCE'', ''FLY_EXAMPLES'']),
      (''data.uglyfox'',
         [''Any'', ''UGLYFOX_CELERY_TASKS'', ''UGLYFOX_CONFIG_SCHEMA'', ''UGLYFOX_ENV_VARS'']),
      (''data.kiro'',
         [''STEERING_PRODUCT'', ''STEERING_STRUCTURE'', ''STEERING_TECH''])]"

definition installed_modules :: "(string \<times> string list) list" where
  "installed_modules =
     [(''json'', [''dumps'']),
      (''mcp.server'', [''Server'']),
      (''mcp.server.stdio'', [''stdio_server'']),
      (''mcp.types'', [''Tool'', ''TextContent''])]"

definition server_imports :: "(string \<times> string list) list" where
  "server_imports =
     [(''json'', []),
      (''mcp.server'', [''Server'']),
      (''mcp.server.stdio'', [''stdio_server'']),
      (''mcp.types'', [''Tool'', ''TextContent'']),
      (''data.mothergoose'',
         [''MOTHERGOOSE_API_ENDPOINTS'', ''MOTHERGOOSE_CELERY_TASKS'', ''MOTHERGOOSE_MODELS'',
          ''MOTHERGOOSE_SERVICES'', ''MOTHERGOOSE_ENV_VARS'']),
      (''data.uglyfox'',
         [''UGLYFOX_CELERY_TASKS'', ''UGLYFOX_CONFIG_SCHEMA'', ''UGLYFOX_ENV_VARS'']),
      (''data.gosling'',
         [''GOSLING_COMMANDS'', ''FLY_LANGUAGE_REFERENCE'', ''FLY_EXAMPLES'']),
      (''data.compute_module'',
         [''COMPUTE_MODULE_VARIABLES'', ''COMPUTE_MODULE_OUTPUTS'', ''COMPUTE_MODULE_PROVIDERS'']),
      (''data.cross_cutting'',
         [''SECRET_URI_SCHEMES'', ''DATABASE_SCHEMA'', ''ARCHITECTURE_OVERVIEW''])]"

definition load_server :: "py_error + unit" where
  "load_server = run_imports (map_of (installed_modules @ data_modules)) server_imports"

section \<open>\<^verbatim>\<open>json.loads\<close>\<close>

text \<open>
  The decoder of the standard library (\<^verbatim>\<open>json/decoder.py\<close> and \<^verbatim>\<open>json/scanner.py\<close>), on
  the text that is left to read instead of the index into the text. A result \<open>None\<close>
  is a \<^verbatim>\<open>JSONDecodeError\<close>; it is also the result for a number with a fraction or an
  exponent and for \<^verbatim>\<open>NaN\<close> and \<^verbatim>\<open>Infinity\<close>, which the decoder turns into a float, a
  type \<open>pyval\<close> does not have. As for the encoder, the interpreter's limits on the
  digits of an integer and on the depth of nesting are not modelled; the texts of the
  data modules are far below them.

  \<open>skip_ws\<close> is \<^verbatim>\<open>WHITESPACE.match(s, end).end()\<close>. The decoder's shortcuts around it
  (it looks at one or two characters before it calls the regular expression) give the
  same position and are not repeated here.
\<close>

definition whitespace :: "nat \<Rightarrow> bool" where
  "whitespace c = (c = 32 \<or> c = 9 \<or> c = 10 \<or> c = 13)"

definition skip_ws :: "pystr \<Rightarrow> pystr" where
  "skip_ws s = dropWhile whitespace s"




text \<open>
  \<^verbatim>\<open>py_scanstring\<close> with \<^verbatim>\<open>strict=True\<close>, from the character after the opening quote:
  the decoded string and the text after the closing quote. A high surrogate escape
  followed by a low surrogate escape is one code point,
  \<^verbatim>\<open>0x10000 + (((uni - 0xd800) << 10) | (uni2 - 0xdc00))\<close>.
\<close>

definition chunk :: "nat \<Rightarrow> (pystr \<times> pystr) option \<Rightarrow> (pystr \<times> pystr) option" where
  "chunk c r = (case r of None \<Rightarrow> None | Some (chunks, s) \<Rightarrow> Some (c # chunks, s))"












text \<open>
  The values that come back as they were: no string holds a surrogate code point
  (the encoder would write two of them side by side as a pair of escapes, which the
  decoder reads as one code point), every code point is below \<open>0x110000\<close>, and no
  dictionary has a key twice.
\<close>

definition scalar_value :: "nat \<Rightarrow> bool" where
  "scalar_value c = (c < 55296 \<or> (57343 < c \<and> c < 1114112))"

definition str_ok :: "pystr \<Rightarrow> bool" where
  "str_ok s = list_all scalar_value s"



definition delimiter :: "pystr \<Rightarrow> bool" where
  "delimiter r = (case r of [] \<Rightarrow> True | c # t \<Rightarrow> c = 44 \<or> c = 10)"



section \<open>Literals\<close>

lemma str_eq_iff [simp]: "str a = str b \<longleftrightarrow> a = b"
  unfolding str_def by (simp add: inj_map_eq_map inj_on_def)

lemma str_Nil [simp]: "str [] = []"
  by (simp add: str_def)

lemma str_Cons: "str (c # cs) = of_char c # str cs"
  by (simp add: str_def)

section \<open>The catalog and the dispatch table\<close>

lemma names_of_TOOLS:
  "map name TOOLS =
     [str ''get_mothergoose_api_endpoints'', str ''get_mothergoose_celery_tasks'',
      str ''get_mothergoose_models'', str ''get_mothergoose_services'',
      str ''get_mothergoose_env_vars'', str ''get_uglyfox_celery_tasks'',
      str ''get_uglyfox_config_schema'', str ''get_uglyfox_env_vars'',
      str ''get_gosling_commands'', str ''get_fly_language_reference'',
      str ''get_fly_examples'', str ''get_compute_module_variables'',
      str ''get_compute_module_outputs'', str ''get_compute_module_providers'',
      str ''get_secret_uri_schemes'', str ''get_database_schema'',
      str ''get_architecture_overview'']"
  by (simp add: TOOLS_def)

lemma distinct_names_of_TOOLS: "distinct (map name TOOLS)"
  unfolding names_of_TOOLS by simp

lemma dom_DISPATCH: "dom (DISPATCH cc) = set (map name TOOLS)"
  unfolding names_of_TOOLS by (auto simp add: DISPATCH_def)


section \<open>The handlers\<close>

lemma call_tool_globals: "snd (call_tool g n arguments) = g"
  by (simp add: call_tool_def Let_def)

lemma after_calls_globals: "after_calls g calls = g"
  by (induction g calls rule: after_calls.induct) (simp_all add: call_tool_globals)



lemma call_tool_None:
  assumes "g_DISPATCH g n = None"
  shows "call_tool g n arguments = ([\<lparr>type = str ''text'', text' = str ''Unknown tool: '' @ n\<rparr>], g)"
  using assms by (simp add: call_tool_def dict_get_def)

lemma newline_indent_0: "newline_indent 0 = [10]"
  by (simp add: newline_indent_def)

lemma newline_indent_Suc: "newline_indent (Suc lvl) = newline_indent lvl @ [32, 32]"
  by (simp add: newline_indent_def replicate_app_Cons_same)

text \<open>The scenario of the specification: the value \<^verbatim>\<open>{"ok": true}\<close>, serialised.\<close>

lemma json_dumps_ok:
  \<open>json_dumps (PDict [(str ''ok'', PBool True)]) = str ''{\<newline>  "ok": true\<newline>}''\<close>
  by (simp add: json_dumps_def py_encode_basestring_ascii_def escape_ascii_def
      newline_indent_0 newline_indent_Suc str_def)






text \<open>
  Claim C2. For a name \<open>n\<close> that the dispatch table does not bind, \<^verbatim>\<open>call_tool\<close> returns (it
  does not raise) one text content block whose text is \<^verbatim>\<open>Unknown tool: \<close> followed by \<open>n\<close>.
\<close>

theorem call_tool_unknown:
  assumes "n \<notin> dom (DISPATCH cc)"
  shows "fst (call_tool (after_calls (server_globals cc) calls) n arguments) =
           [\<lparr>type = str ''text'', text' = str ''Unknown tool: '' @ n\<rparr>]"
proof -
  have "g_DISPATCH (server_globals cc) n = None"
    using assms by (auto simp add: server_globals_def)
  then show ?thesis
    by (simp add: after_calls_globals call_tool_None)
qed

theorem call_tool_unknown_witness:
  "fst (call_tool
      (server_globals \<lparr>SECRET_URI_SCHEMES = PList [], DATABASE_SCHEMA = PList [],
                       ARCHITECTURE_OVERVIEW = PList []\<rparr>)
      (str ''missing'') Map.empty)
    = [\<lparr>type = str ''text'', text' = str ''Unknown tool: missing''\<rparr>]"
proof -
  let ?cc = "\<lparr>SECRET_URI_SCHEMES = PList [], DATABASE_SCHEMA = PList [],
              ARCHITECTURE_OVERVIEW = PList []\<rparr>"
  have "str ''missing'' \<notin> dom (DISPATCH ?cc)"
    unfolding dom_DISPATCH names_of_TOOLS by simp
  from call_tool_unknown [OF this, of "[]" Map.empty] show ?thesis
    by (simp add: str_def)
qed

text \<open>
  Claim C3. \<^verbatim>\<open>list_tools\<close> returns the list \<^verbatim>\<open>TOOLS\<close> as declared: the seventeen descriptors
  in the order of their declaration, none of them twice, after any sequence of
  \<^verbatim>\<open>call_tool\<close> invocations; and it leaves the globals as they were.
\<close>

theorem list_tools_catalog:
  "fst (list_tools (after_calls (server_globals cc) calls)) = TOOLS
   \<and> snd (list_tools (after_calls (server_globals cc) calls)) = server_globals cc
   \<and> distinct TOOLS
   \<and> map name TOOLS =
       [str ''get_mothergoose_api_endpoints'', str ''get_mothergoose_celery_tasks'',
        str ''get_mothergoose_models'', str ''get_mothergoose_services'',
        str ''get_mothergoose_env_vars'', str ''get_uglyfox_celery_tasks'',
        str ''get_uglyfox_config_schema'', str ''get_uglyfox_env_vars'',
        str ''get_gosling_commands'', str ''get_fly_language_reference'',
        str ''get_fly_examples'', str ''get_compute_module_variables'',
        str ''get_compute_module_outputs'', str ''get_compute_module_providers'',
        str ''get_secret_uri_schemes'', str ''get_database_schema'',
        str ''get_architecture_overview'']"
proof -
  have "distinct TOOLS"
    using distinct_names_of_TOOLS by (rule distinct_map [THEN iffD1, THEN conjunct1])
  then show ?thesis
    by (simp add: after_calls_globals list_tools_def server_globals_def names_of_TOOLS)
qed

text \<open>
  Claim C4. The names the catalog advertises are the keys of the dispatch table.
\<close>

theorem catalog_binding_equality: "set (map name TOOLS) = dom (DISPATCH cc)"
  by (simp only: dom_DISPATCH)

text \<open>
  Claim C5. Loading \<^verbatim>\<open>server.py\<close> runs its imports in order. The last one names the
  module \<^verbatim>\<open>data.cross_cutting\<close>, which is not among the modules of the repository: the
  load ends in \<^verbatim>\<open>ModuleNotFoundError\<close>.
\<close>

theorem load_server_fails: "load_server = Inl (ModuleNotFoundError ''data.cross_cutting'')"
  by (simp add: load_server_def server_imports_def installed_modules_def data_modules_def
      import_from_def)

text \<open>
  Claim C7. No two entries of the catalog have the same name.
\<close>

theorem catalog_names_distinct: "distinct (map name TOOLS)"
  by (rule distinct_names_of_TOOLS)

text \<open>
  Claim C8. Every entry of the catalog has the empty-object input schema: an object
  schema with no properties and no required fields.
\<close>

theorem catalog_empty_schema: "\<forall>t \<in> set TOOLS. inputSchema t = empty_object_schema"
  by (simp add: TOOLS_def empty_object_schema_def)

theorem catalog_empty_schema_witness:
  "inputSchema (hd TOOLS) =
     PDict [(str ''type'', PStr (str ''object'')), (str ''properties'', PDict []),
            (str ''required'', PList [])]"
proof -
  have "hd TOOLS \<in> set TOOLS"
    by (simp add: TOOLS_def)
  with catalog_empty_schema show ?thesis
    by (simp add: empty_object_schema_def)
qed

text \<open>
  Claim C9. The result of \<^verbatim>\<open>call_tool\<close> does not depend on the arguments.
\<close>

theorem call_tool_ignores_arguments: "call_tool g n a1 = call_tool g n a2"
  by (simp add: call_tool_def)

section \<open>Reading back what \<^verbatim>\<open>json.dumps\<close> wrote\<close>

subsection \<open>Escapes\<close>





lemma chunk_Some [simp]: "chunk c (Some (cs, s)) = Some (c # cs, s)"
  by (simp add: chunk_def)







subsection \<open>Integers\<close>












subsection \<open>Whitespace and first characters\<close>




lemma skip_ws_punctuation [simp]:
  "skip_ws (93 # s) = 93 # s" "skip_ws (125 # s) = 125 # s" "skip_ws (44 # s) = 44 # s"
  "skip_ws (34 # s) = 34 # s" "skip_ws (58 # s) = 58 # s" "skip_ws (32 # s) = skip_ws s"
  by (simp_all add: skip_ws_def whitespace_def)

lemma delimiter_newline_indent [simp]: "delimiter (newline_indent lvl @ s)"
  by (simp add: delimiter_def newline_indent_def)

lemma delimiter_comma [simp]: "delimiter (44 # s)"
  by (simp add: delimiter_def)






subsection \<open>Dictionaries\<close>




subsection \<open>Reading a serialised value back\<close>



subsection \<open>The bound on nested calls\<close>

lemma length_newline_indent [simp]: "length (newline_indent lvl) = 1 + 2 * lvl"
  by (simp add: newline_indent_def)



subsection \<open>The round trip\<close>


lemma str_ok_str [simp]: "str_ok (str s)"
proof -
  have "(of_char c :: nat) mod 256 < 256" for c
    by simp
  then have lt: "(of_char c :: nat) < 256" for c
    by (simp only: of_char_mod_256)
  have "scalar_value (of_char c)" for c
    unfolding scalar_value_def by (rule disjI1, rule less_trans [OF lt]) simp
  then show ?thesis
    by (simp add: str_ok_def str_def list_all_iff)
qed

lemma str_ok_append [simp]: "str_ok (a @ b) \<longleftrightarrow> str_ok a \<and> str_ok b"
  by (simp add: str_ok_def)

lemma str_ok_Cons [simp]: "str_ok (c # s) \<longleftrightarrow> scalar_value c \<and> str_ok s"
  by (simp add: str_ok_def)

lemma str_ok_Nil [simp]: "str_ok []"
  by (simp add: str_ok_def)
subsection \<open>The data modules\<close>






subsection \<open>A string that does not come back\<close>









end
